theory Spec2Isabelle
  imports Main "HOL-Library.Word" "HOL-Library.Sublist"
begin

section \<open>JavaScript strings and numbers\<close>

text \<open>
  A JavaScript string is a sequence of 16-bit code units: \<open>length\<close>, \<open>substring\<close>,
  \<open>trim\<close>, \<open>replace\<close> and the regular expression of \<open>main.mts\<close> (which has no
  \<open>u\<close> flag) all work on code units. The literals of the source are ASCII; \<open>str\<close>
  turns an ASCII literal into its code units.
\<close>

type_synonym jsstring = "16 word list"

abbreviation cu :: "char \<Rightarrow> 16 word" where
  "cu c \<equiv> of_char c"

definition str :: "string \<Rightarrow> jsstring" where
  "str s = map cu s"

text \<open>
  \<open>WhiteSpace\<close> and \<open>LineTerminator\<close> of ECMAScript: what \<open>String.prototype.trim\<close>,
  \<open>parseInt\<close> and \<open>Number\<close> strip.
\<close>

definition isWhiteSpace :: "16 word \<Rightarrow> bool" where
  "isWhiteSpace c \<longleftrightarrow>
     c \<in> {0x0009, 0x000A, 0x000B, 0x000C, 0x000D, 0x0020, 0x00A0, 0x1680,
          0x2028, 0x2029, 0x202F, 0x205F, 0x3000, 0xFEFF}
     \<or> (0x2000 \<le> c \<and> c \<le> 0x200A)"

definition trimStart :: "jsstring \<Rightarrow> jsstring" where
  "trimStart s = dropWhile isWhiteSpace s"

definition trim :: "jsstring \<Rightarrow> jsstring" where
  "trim s = rev (dropWhile isWhiteSpace (rev (dropWhile isWhiteSpace s)))"

text \<open>
  A JavaScript Number is an IEEE double. The Numbers of this program (a timestamp, an
  HTTP status, the page counter) hold integers, and an \<open>int\<close> stands for the Number that
  an integer literal denotes: the integer itself up to \<open>2^53\<close>, beyond it the nearest
  double, ties to the even significand (\<open>roundToDouble\<close>), and infinity from
  \<open>2^1024 - 2^970\<close> on. \<open>lastTimestamp\<close> is assigned from \<open>parseInt\<close>, which can also
  yield \<open>NaN\<close> or an infinity.
\<close>

datatype number = Num int | NaN | PosInfinity | NegInfinity

fun bitLength :: "nat \<Rightarrow> nat" where
  "bitLength n = (if n = 0 then 0 else Suc (bitLength (n div 2)))"

declare bitLength.simps [simp del]

definition roundToDouble :: "nat \<Rightarrow> nat" where
  "roundToDouble n =
     (if bitLength n \<le> 53 then n
      else
        (let e = bitLength n - 53; q = n div 2 ^ e; r = n mod 2 ^ e; half = 2 ^ (e - 1)
         in if r < half \<or> (r = half \<and> even q) then q * 2 ^ e else (q + 1) * 2 ^ e))"

definition overflowsDouble :: "nat \<Rightarrow> bool" where
  "overflowsDouble n \<longleftrightarrow> 2 ^ 1024 - 2 ^ 970 \<le> n"


definition digitUnit :: "nat \<Rightarrow> 16 word" where
  "digitUnit d = of_nat (48 + d)"

definition isDigit :: "16 word \<Rightarrow> bool" where
  "isDigit c \<longleftrightarrow> 0x30 \<le> c \<and> c \<le> 0x39"

definition digitValue :: "16 word \<Rightarrow> nat" where
  "digitValue c = unat c - 48"

fun digitsOfNat :: "nat \<Rightarrow> jsstring" where
  "digitsOfNat n = (if n < 10 then [digitUnit n] else digitsOfNat (n div 10) @ [digitUnit (n mod 10)])"

declare digitsOfNat.simps [simp del]

text \<open>
  \<open>Number.prototype.toString\<close> prints the decimal number of fewest significant digits
  that still denotes the Number, and of those the one closest to it (the even one on a
  tie). \<open>shortestCandidate v scale\<close> looks at the two multiples of \<open>scale\<close> around \<open>v\<close>;
  \<open>shortestDecimal\<close> tries the scales from one significant digit upwards and ends, at
  the latest, with \<open>v\<close> itself.
\<close>

definition shortestCandidate :: "nat \<Rightarrow> nat \<Rightarrow> nat option" where
  "shortestCandidate v scale =
     (let lo = (v div scale) * scale; hi = lo + scale;
          loDenotes = (roundToDouble lo = v); hiDenotes = (roundToDouble hi = v)
      in if loDenotes \<and> hiDenotes then
           (if v - lo < hi - v then Some lo
            else if hi - v < v - lo then Some hi
            else if even (v div scale) then Some lo else Some hi)
         else if loDenotes then Some lo
         else if hiDenotes then Some hi
         else None)"

fun firstCandidate :: "nat \<Rightarrow> nat list \<Rightarrow> nat" where
  "firstCandidate v [] = v"
| "firstCandidate v (scale # scales) =
     (case shortestCandidate v scale of Some p \<Rightarrow> p | None \<Rightarrow> firstCandidate v scales)"

definition shortestDecimal :: "nat \<Rightarrow> nat" where
  "shortestDecimal v =
     (let len = length (digitsOfNat v)
      in firstCandidate v (map (\<lambda>k. 10 ^ (len - k)) [1..<len]))"

text \<open>
  Below \<open>10^21\<close> the decimal is printed in full; from \<open>10^21\<close> on in exponent form, the
  significant digits with a point after the first, then \<open>e+\<close> and the exponent.
\<close>

definition exponentForm :: "nat \<Rightarrow> jsstring" where
  "exponentForm p =
     (let ds = digitsOfNat p;
          significant = rev (dropWhile (\<lambda>c. c = cu CHR ''0'') (rev ds));
          exponent = digitsOfNat (length ds - 1)
      in if length significant = 1 then significant @ str ''e+'' @ exponent
         else hd significant # cu CHR ''.'' # tl significant @ str ''e+'' @ exponent)"

definition numberToString :: "nat \<Rightarrow> jsstring" where
  "numberToString n =
     (if overflowsDouble n then str ''Infinity''
      else
        (let p = shortestDecimal (roundToDouble n)
         in if p < 10 ^ 21 then digitsOfNat p else exponentForm p))"

definition toString :: "int \<Rightarrow> jsstring" where
  "toString i = (if i < 0 then cu CHR ''-'' # numberToString (nat (- i)) else numberToString (nat i))"

definition digitsValue :: "jsstring \<Rightarrow> nat" where
  "digitsValue ds = foldl (\<lambda>acc c. 10 * acc + digitValue c) 0 ds"

text \<open>
  \<open>parseInt(s, 10)\<close>: leading white space is skipped, one sign is read, then the longest
  run of decimal digits; no digit at all gives \<open>NaN\<close>. The result is the Number that the
  digits denote.
\<close>

definition parseInt10 :: "jsstring \<Rightarrow> number" where
  "parseInt10 s =
     (let t = trimStart s;
          negative = (t \<noteq> [] \<and> hd t = cu CHR ''-'');
          u = (if t \<noteq> [] \<and> (hd t = cu CHR ''+'' \<or> hd t = cu CHR ''-'') then tl t else t);
          ds = takeWhile isDigit u
      in if ds = [] then NaN
         else if overflowsDouble (digitsValue ds) then
           (if negative then NegInfinity else PosInfinity)
         else if negative then Num (- int (roundToDouble (digitsValue ds)))
         else Num (int (roundToDouble (digitsValue ds))))"

text \<open>
  \<open>String.prototype.replace\<close> with a string pattern: only the first occurrence is
  replaced, and the replacement text is expanded by \<open>GetSubstitution\<close> (\<open>$$\<close>, \<open>$&\<close>,
  \<open>$`\<close>, \<open>$'\<close>; with no capture group every other \<open>$\<close> stays as it is).
\<close>

fun splitAtFirst :: "jsstring \<Rightarrow> jsstring \<Rightarrow> (jsstring \<times> jsstring) option" where
  "splitAtFirst pat [] = (if pat = [] then Some ([], []) else None)"
| "splitAtFirst pat (c # cs) =
     (if prefix pat (c # cs) then Some ([], drop (length pat) (c # cs))
      else map_option (\<lambda>(preceding, following). (c # preceding, following)) (splitAtFirst pat cs))"

fun getSubstitution :: "jsstring \<Rightarrow> jsstring \<Rightarrow> jsstring \<Rightarrow> jsstring \<Rightarrow> jsstring" where
  "getSubstitution matched preceding following [] = []"
| "getSubstitution matched preceding following [c] = [c]"
| "getSubstitution matched preceding following (c # d # ds) =
     (if c = cu CHR ''$'' then
        (if d = cu CHR ''$'' then cu CHR ''$'' # getSubstitution matched preceding following ds
         else if d = cu CHR ''&'' then matched @ getSubstitution matched preceding following ds
         else if d = cu CHR 0x60 then preceding @ getSubstitution matched preceding following ds
         else if d = cu CHR 0x27 then following @ getSubstitution matched preceding following ds
         else c # getSubstitution matched preceding following (d # ds))
      else c # getSubstitution matched preceding following (d # ds))"

definition replace :: "jsstring \<Rightarrow> jsstring \<Rightarrow> jsstring \<Rightarrow> jsstring" where
  "replace s pat rep =
     (case splitAtFirst pat s of
        None \<Rightarrow> s
      | Some (preceding, following) \<Rightarrow> preceding @ getSubstitution pat preceding following rep @ following)"

text \<open>\<open>Array.prototype.join\<close>.\<close>

fun join :: "jsstring \<Rightarrow> jsstring list \<Rightarrow> jsstring" where
  "join sep [] = []"
| "join sep [x] = x"
| "join sep (x # y # ys) = x @ sep @ join sep (y # ys)"

section \<open>Errors and the console\<close>

text \<open>
  An \<open>Error\<close> object with its \<open>name\<close> and \<open>message\<close>; a thrown value is either
  such an object (what \<open>isError\<close> recognises) or a value that \<open>isError\<close> does not
  recognise. Every \<open>throw\<close> of the program throws an \<open>Error\<close> object.
\<close>

datatype js_error = JsError (errName: jsstring) (message: jsstring)

datatype thrown = ThrownError js_error | ThrownOther

text \<open>The type guard \<open>isError\<close>: it narrows a thrown value to an \<open>Error\<close>.\<close>

definition isError :: "thrown \<Rightarrow> js_error option" where
  "isError e = (case e of ThrownError err \<Rightarrow> Some err | ThrownOther \<Rightarrow> None)"

text \<open>\<open>Error.prototype.toString\<close>, which the template literal \<open>${error}\<close> calls.\<close>

definition errorToString :: "js_error \<Rightarrow> jsstring" where
  "errorToString e =
     (if errName e = [] then message e
      else if message e = [] then errName e
      else errName e @ str '': '' @ message e)"

definition newError :: "jsstring \<Rightarrow> js_error" where
  "newError msg = JsError (str ''Error'') msg"

datatype console_entry =
    ConsoleLog jsstring
  | ConsoleLogList jsstring "jsstring list"
  | ConsoleError jsstring

section \<open>The data model of \<open>main.mts\<close>\<close>

record Token =
  token_id :: jsstring
  name :: jsstring
  symbol :: jsstring

text \<open>
  \<open>createdAtTimestamp\<close> is the integer creation time of the pair (the cursor key of the
  query); floating-point values are outside this model.
\<close>

record Pair =
  pair_id :: jsstring
  createdAtTimestamp :: int
  token0 :: Token
  token1 :: Token

text \<open>
  The code reads \<open>result.data\<close> and \<open>result.data.pairs\<close> defensively, so both may be
  absent in a parsed body; so may \<open>errors\<close>.
\<close>

record GraphQLData =
  pairs :: "Pair list option"

record GraphQLError =
  error_message :: jsstring

record GraphQLResponse =
  data :: "GraphQLData option"
  errors :: "GraphQLError list option"

record ContractTag =
  Contract_Address :: jsstring
  Public_Name_Tag :: jsstring
  Project_Name :: jsstring
  UI_Website_Link :: jsstring
  Public_Note :: jsstring

record subgraph_urls =
  decentralized :: jsstring

definition SUBGRAPH_URLS :: "(jsstring \<times> subgraph_urls) list" where
  "SUBGRAPH_URLS =
     [(str ''1'',
       \<lparr>decentralized = str ''https://gateway-arbitrum.network.thegraph.com/api/[api-key]/deployments/id/QmZzsQGDmQFbzYkv2qx4pVnD6aVnuhKbD3t1ea7SAvV7zE''\<rparr>)]"

section \<open>\<open>containsHtmlOrMarkdown\<close>\<close>

text \<open>
  \<open>/<[^>]*>/.test(text)\<close>: at some position a \<open><\<close>, then any run of code units other
  than \<open>>\<close>, then a \<open>>\<close>. \<open>tagClosesHere\<close> matches \<open>[^>]*>\<close> at the start of its
  argument; the star cannot step over a \<open>>\<close>, so the greedy run is the only candidate.
\<close>

definition tagClosesHere :: "jsstring \<Rightarrow> bool" where
  "tagClosesHere cs \<longleftrightarrow> dropWhile (\<lambda>c. c \<noteq> cu CHR ''>'') cs \<noteq> []"

fun regexTest :: "jsstring \<Rightarrow> bool" where
  "regexTest [] = False"
| "regexTest (c # cs) = ((c = cu CHR ''<'' \<and> tagClosesHere cs) \<or> regexTest cs)"

definition containsHtmlOrMarkdown :: "jsstring \<Rightarrow> bool" where
  "containsHtmlOrMarkdown text = (if regexTest text then True else False)"

text \<open>
  The specification's words, for comparison with the code: the text contains a substring
  of the shape \<open><...>\<close>, an opening \<open><\<close>, a body without \<open>>\<close>, a closing \<open>>\<close>.
\<close>

definition hasTagLikeSubstring :: "jsstring \<Rightarrow> bool" where
  "hasTagLikeSubstring text \<longleftrightarrow>
     (\<exists>pre body post. text = pre @ [cu CHR ''<''] @ body @ [cu CHR ''>''] @ post
        \<and> cu CHR ''>'' \<notin> set body)"

section \<open>\<open>prepareUrl\<close>\<close>

text \<open>
  \<open>SUBGRAPH_URLS[chainId]\<close> is a property read on a plain object: an own property, or one
  inherited from \<open>Object.prototype\<close> (a truthy value without a \<open>decentralized\<close> field), or
  \<open>undefined\<close>.
\<close>

datatype 'a property = Own 'a | Inherited | Undefined

definition objectPrototypeKeys :: "jsstring list" where
  "objectPrototypeKeys = map str
     [''constructor'', ''__defineGetter__'', ''__defineSetter__'', ''hasOwnProperty'',
      ''__lookupGetter__'', ''__lookupSetter__'', ''isPrototypeOf'', ''propertyIsEnumerable'',
      ''toString'', ''valueOf'', ''__proto__'', ''toLocaleString'']"

definition getProperty :: "(jsstring \<times> 'a) list \<Rightarrow> jsstring \<Rightarrow> 'a property" where
  "getProperty obj key =
     (case map_of obj key of
        Some v \<Rightarrow> Own v
      | None \<Rightarrow> if key \<in> set objectPrototypeKeys then Inherited else Undefined)"

definition objectKeys :: "(jsstring \<times> 'a) list \<Rightarrow> jsstring list" where
  "objectKeys obj = map fst obj"

text \<open>
  \<open>isNaN(Number(s))\<close>: \<open>Number\<close> trims white space, reads the empty string as 0 and
  anything that is not a \<open>StringNumericLiteral\<close> as \<open>NaN\<close>.
\<close>

definition stripSign :: "jsstring \<Rightarrow> jsstring" where
  "stripSign s = (if s \<noteq> [] \<and> (hd s = cu CHR ''+'' \<or> hd s = cu CHR ''-'') then tl s else s)"

definition isExponentPartOpt :: "jsstring \<Rightarrow> bool" where
  "isExponentPartOpt r \<longleftrightarrow>
     r = [] \<or> ((hd r = cu CHR ''e'' \<or> hd r = cu CHR ''E'')
               \<and> stripSign (tl r) \<noteq> [] \<and> list_all isDigit (stripSign (tl r)))"

definition isStrUnsignedDecimalLiteral :: "jsstring \<Rightarrow> bool" where
  "isStrUnsignedDecimalLiteral u \<longleftrightarrow>
     u = str ''Infinity'' \<or>
     (let ip = takeWhile isDigit u; r = dropWhile isDigit u
      in if r \<noteq> [] \<and> hd r = cu CHR ''.''
         then (ip \<noteq> [] \<or> takeWhile isDigit (tl r) \<noteq> [])
              \<and> isExponentPartOpt (dropWhile isDigit (tl r))
         else ip \<noteq> [] \<and> isExponentPartOpt r)"

definition isRadixDigit :: "nat \<Rightarrow> 16 word \<Rightarrow> bool" where
  "isRadixDigit radix c \<longleftrightarrow>
     (0x30 \<le> c \<and> unat c < 0x30 + min radix 10)
     \<or> (0x41 \<le> c \<and> unat c + 10 < 0x41 + radix)
     \<or> (0x61 \<le> c \<and> unat c + 10 < 0x61 + radix)"

definition isNonDecimalIntegerLiteral :: "jsstring \<Rightarrow> bool" where
  "isNonDecimalIntegerLiteral t \<longleftrightarrow>
     (case t of
        z # x # ds \<Rightarrow>
          z = cu CHR ''0'' \<and> ds \<noteq> [] \<and>
          ((x \<in> {cu CHR ''b'', cu CHR ''B''} \<and> list_all (isRadixDigit 2) ds)
           \<or> (x \<in> {cu CHR ''o'', cu CHR ''O''} \<and> list_all (isRadixDigit 8) ds)
           \<or> (x \<in> {cu CHR ''x'', cu CHR ''X''} \<and> list_all (isRadixDigit 16) ds))
      | _ \<Rightarrow> False)"

definition isNaN_Number :: "jsstring \<Rightarrow> bool" where
  "isNaN_Number s \<longleftrightarrow>
     (let t = trim s
      in \<not> (t = [] \<or> isStrUnsignedDecimalLiteral (stripSign t) \<or> isNonDecimalIntegerLiteral t))"

text \<open>
  \<open>encodeURIComponent\<close>: letters, digits and \<open>-_.!~*'()\<close> stay; every other code point is
  written as the \<open>%XX\<close> escapes of its UTF-8 bytes; an unpaired surrogate throws
  \<open>URIError\<close>.
\<close>

definition isUriUnescaped :: "16 word \<Rightarrow> bool" where
  "isUriUnescaped c \<longleftrightarrow>
     (0x41 \<le> c \<and> c \<le> 0x5A) \<or> (0x61 \<le> c \<and> c \<le> 0x7A) \<or> (0x30 \<le> c \<and> c \<le> 0x39)
     \<or> c \<in> set (str ''-_.!~*'') \<or> c = cu CHR 0x27 \<or> c \<in> set (str ''()'')"

definition isLeadSurrogate :: "16 word \<Rightarrow> bool" where
  "isLeadSurrogate c \<longleftrightarrow> 0xD800 \<le> c \<and> c \<le> 0xDBFF"

definition isTrailSurrogate :: "16 word \<Rightarrow> bool" where
  "isTrailSurrogate c \<longleftrightarrow> 0xDC00 \<le> c \<and> c \<le> 0xDFFF"

definition surrogatePair :: "16 word \<Rightarrow> 16 word \<Rightarrow> nat" where
  "surrogatePair lead trail = (unat lead - 0xD800) * 0x400 + (unat trail - 0xDC00) + 0x10000"

definition utf8 :: "nat \<Rightarrow> nat list" where
  "utf8 cp =
     (if cp < 0x80 then [cp]
      else if cp < 0x800 then [0xC0 + cp div 0x40, 0x80 + cp mod 0x40]
      else if cp < 0x10000 then
        [0xE0 + cp div 0x1000, 0x80 + cp div 0x40 mod 0x40, 0x80 + cp mod 0x40]
      else
        [0xF0 + cp div 0x40000, 0x80 + cp div 0x1000 mod 0x40,
         0x80 + cp div 0x40 mod 0x40, 0x80 + cp mod 0x40])"

definition hexUnit :: "nat \<Rightarrow> 16 word" where
  "hexUnit n = (if n < 10 then of_nat (0x30 + n) else of_nat (0x41 + (n - 10)))"

definition percentEncode :: "nat list \<Rightarrow> jsstring" where
  "percentEncode octets =
     concat (map (\<lambda>b. [cu CHR ''%'', hexUnit (b div 16), hexUnit (b mod 16)]) octets)"

definition uriError :: js_error where
  "uriError = JsError (str ''URIError'') (str ''URI malformed'')"

fun encodeURIComponent :: "jsstring \<Rightarrow> js_error + jsstring" where
  "encodeURIComponent [] = Inr []"
| "encodeURIComponent (c # cs) =
     (if isUriUnescaped c then
        (case encodeURIComponent cs of Inl e \<Rightarrow> Inl e | Inr r \<Rightarrow> Inr (c # r))
      else if isLeadSurrogate c then
        (case cs of
           [] \<Rightarrow> Inl uriError
         | d # ds \<Rightarrow>
             if isTrailSurrogate d then
               (case encodeURIComponent ds of
                  Inl e \<Rightarrow> Inl e
                | Inr r \<Rightarrow> Inr (percentEncode (utf8 (surrogatePair c d)) @ r))
             else Inl uriError)
      else if isTrailSurrogate c then Inl uriError
      else
        (case encodeURIComponent cs of
           Inl e \<Rightarrow> Inl e
         | Inr r \<Rightarrow> Inr (percentEncode (utf8 (unat c)) @ r)))"

text \<open>
  \<open>prepareUrl\<close>. The last branch, an inherited property under a numeric key, would be a
  \<open>TypeError\<close> on \<open>urls.decentralized.replace\<close>; no key reaches it.
\<close>

definition prepareUrl :: "jsstring \<Rightarrow> jsstring \<Rightarrow> js_error + jsstring" where
  "prepareUrl chainId apiKey =
     (let urls = getProperty SUBGRAPH_URLS chainId
      in if urls = Undefined \<or> isNaN_Number chainId then
           (let supportedChainIds = join (str '', '') (objectKeys SUBGRAPH_URLS)
            in Inl (newError (str ''Unsupported or invalid Chain ID provided: '' @ chainId
                              @ str ''. Only the following values are accepted: ''
                              @ supportedChainIds)))
         else
           (case urls of
              Own u \<Rightarrow>
                (case encodeURIComponent apiKey of
                   Inl e \<Rightarrow> Inl e
                 | Inr encoded \<Rightarrow> Inr (replace (decentralized u) (str ''[api-key]'') encoded))
            | _ \<Rightarrow> Inl (JsError (str ''TypeError'')
                         (str ''Cannot read properties of undefined (reading 'replace')''))))"

section \<open>\<open>truncateString\<close> and \<open>transformPairsToTags\<close>\<close>

text \<open>\<open>substring(0, n)\<close> clamps a negative \<open>n\<close> to 0 and a large one to the length.\<close>

definition truncateString :: "jsstring \<Rightarrow> int \<Rightarrow> jsstring" where
  "truncateString text maxLength =
     (if int (length text) > maxLength then take (nat (maxLength - 3)) text @ str ''...''
      else text)"

definition token0Invalid :: "Pair \<Rightarrow> bool" where
  "token0Invalid pair \<longleftrightarrow>
     containsHtmlOrMarkdown (name (token0 pair)) \<or> containsHtmlOrMarkdown (symbol (token0 pair))"

definition token1Invalid :: "Pair \<Rightarrow> bool" where
  "token1Invalid pair \<longleftrightarrow>
     containsHtmlOrMarkdown (name (token1 pair)) \<or> containsHtmlOrMarkdown (symbol (token1 pair))"

text \<open>
  One round of the \<open>forEach\<close> over the pairs, on the two accumulators \<open>validPairs\<close> and
  \<open>rejectedNames\<close>.
\<close>

definition classifyPair :: "Pair list \<times> jsstring list \<Rightarrow> Pair \<Rightarrow> Pair list \<times> jsstring list" where
  "classifyPair acc pair =
     (case acc of (validPairs, rejectedNames) \<Rightarrow>
        if token0Invalid pair \<or> token1Invalid pair then
          (validPairs,
           rejectedNames
           @ (if token0Invalid pair
              then [name (token0 pair) @ str '', Symbol: '' @ symbol (token0 pair)] else [])
           @ (if token1Invalid pair
              then [name (token1 pair) @ str '', Symbol: '' @ symbol (token1 pair)] else []))
        else (validPairs @ [pair], rejectedNames))"

definition symbolsText :: "Pair \<Rightarrow> jsstring" where
  "symbolsText pair = trim (symbol (token0 pair)) @ str ''/'' @ trim (symbol (token1 pair))"

text \<open>The callback of \<open>validPairs.map\<close>.\<close>

definition pairToTag :: "jsstring \<Rightarrow> Pair \<Rightarrow> ContractTag" where
  "pairToTag chainId pair =
     (let maxSymbolsLength = 45;
          truncatedSymbolsText = truncateString (symbolsText pair) maxSymbolsLength
      in \<lparr>Contract_Address = str ''eip155:'' @ chainId @ str '':'' @ pair_id pair,
          Public_Name_Tag = truncatedSymbolsText @ str '' Pair'',
          Project_Name = str ''Uniswap v2'',
          UI_Website_Link = str ''https://uniswap.org'',
          Public_Note =
            str ''The pair contract on Uniswap v2 for the ''
            @ trim (replace (name (token0 pair)) (str ''USD//C'') (str ''USDC''))
            @ str '' ('' @ trim (symbol (token0 pair)) @ str '') / ''
            @ trim (replace (name (token1 pair)) (str ''USD//C'') (str ''USDC''))
            @ str '' ('' @ trim (symbol (token1 pair)) @ str '') pair.''\<rparr>)"

text \<open>The result is the list of tags together with what was written to the console.\<close>

definition transformPairsToTags :: "jsstring \<Rightarrow> Pair list \<Rightarrow> ContractTag list \<times> console_entry list" where
  "transformPairsToTags chainId ps =
     (case foldl classifyPair ([], []) ps of (validPairs, rejectedNames) \<Rightarrow>
        (map (pairToTag chainId) validPairs,
         if length rejectedNames > 0
         then [ConsoleLogList (str ''Rejected token names due to HTML/Markdown content:'')
                 rejectedNames]
         else []))"

section \<open>The network and \<open>fetchData\<close>\<close>

text \<open>
  What one call of \<open>fetch\<close> gives: the promise rejects with a thrown value, or resolves to
  a response with its \<open>ok\<close> flag, its status and its body, whose parsing by
  \<open>response.json()\<close> can itself reject. The network is the sequence of outcomes that the
  successive calls receive. The world records the console and the requests sent, each
  with its URL and the \<open>lastTimestamp\<close> variable of the query.
\<close>

record http_response =
  ok :: bool
  status :: nat
  json :: "thrown + GraphQLResponse"

type_synonym network = "nat \<Rightarrow> thrown + http_response"

record world =
  console :: "console_entry list"
  requests :: "(jsstring \<times> number) list"

definition fetchData :: "network \<Rightarrow> jsstring \<Rightarrow> number \<Rightarrow> world \<Rightarrow> (thrown + Pair list) \<times> world" where
  "fetchData net subgraphUrl lastTimestamp w =
     (let w1 = w\<lparr>requests := requests w @ [(subgraphUrl, lastTimestamp)]\<rparr>
      in case net (length (requests w)) of
           Inl rejection \<Rightarrow> (Inl rejection, w1)
         | Inr response \<Rightarrow>
             if \<not> ok response then
               (Inl (ThrownError (newError (str ''HTTP error: '' @ toString (int (status response))))),
                w1)
             else
               (case json response of
                  Inl rejection \<Rightarrow> (Inl rejection, w1)
                | Inr result \<Rightarrow>
                    (case errors result of
                       Some errs \<Rightarrow>
                         (Inl (ThrownError
                                (newError (str ''GraphQL errors occurred: see logs for details.''))),
                          w1\<lparr>console := console w1
                               @ map (\<lambda>error. ConsoleError (str ''GraphQL error: '' @ error_message error))
                                   errs\<rparr>)
                     | None \<Rightarrow>
                         (case data result of
                            None \<Rightarrow> (Inl (ThrownError (newError (str ''No pairs data found.''))), w1)
                          | Some d \<Rightarrow>
                              (case pairs d of
                                 None \<Rightarrow>
                                   (Inl (ThrownError (newError (str ''No pairs data found.''))), w1)
                               | Some ps \<Rightarrow> (Inr ps, w1))))))"

section \<open>\<open>returnTags\<close>\<close>

record loop_state =
  lastTimestamp :: number
  allTags :: "ContractTag list"
  isMore :: bool
  counter :: nat

text \<open>The \<open>try\<close> block of the loop: one fetch, one transformation, the cursor update.\<close>

definition tryBlock :: "network \<Rightarrow> jsstring \<Rightarrow> jsstring \<Rightarrow> loop_state \<Rightarrow> world \<Rightarrow> (thrown + loop_state) \<times> world" where
  "tryBlock net chainId url s w =
     (case fetchData net url (lastTimestamp s) w of
        (Inl error, w1) \<Rightarrow> (Inl error, w1)
      | (Inr ps, w1) \<Rightarrow>
          (case transformPairsToTags chainId ps of (tags, logged) \<Rightarrow>
             (let counter' = counter s + 1;
                  w2 = w1\<lparr>console := console w1 @ logged
                         @ [ConsoleLog (str ''Retrieved first '' @ toString (int (counter' * 1000))
                                        @ str '' entries...'')]\<rparr>;
                  isMore' = (length ps = 1000)
              in (Inr (s\<lparr>allTags := allTags s @ tags,
                         counter := counter',
                         isMore := isMore',
                         lastTimestamp :=
                           (if isMore' then parseInt10 (toString (createdAtTimestamp (last ps)))
                            else lastTimestamp s)\<rparr>),
                  w2))))"

text \<open>The \<open>catch\<close> block: it logs, then throws a new \<open>Error\<close>.\<close>

definition catchBlock :: "thrown \<Rightarrow> world \<Rightarrow> js_error \<times> world" where
  "catchBlock error w =
     (case isError error of
        Some err \<Rightarrow>
          (newError (str ''Failed fetching data: '' @ errorToString err),
           w\<lparr>console := console w @ [ConsoleError (str ''An error occurred: '' @ message err)]\<rparr>)
      | None \<Rightarrow>
          (newError (str ''An unknown error occurred during fetch operation.''),
           w\<lparr>console := console w @ [ConsoleError (str ''An unknown error occurred.'')]\<rparr>))"

text \<open>
  The \<open>while (isMore)\<close> loop. It need not end (a network that serves full pages for
  ever), so it is a partial function: \<open>None\<close> is a run that never returns, \<open>Some\<close> of
  \<open>Inl\<close> a rejected promise, \<open>Some\<close> of \<open>Inr\<close> the resolved list of tags.
\<close>

partial_function (option) returnTags_loop ::
  "network \<Rightarrow> jsstring \<Rightarrow> jsstring \<Rightarrow> loop_state \<Rightarrow> world
     \<Rightarrow> ((js_error + ContractTag list) \<times> world) option" where
  "returnTags_loop net chainId url s w =
     (if isMore s then
        (case tryBlock net chainId url s w of
           (Inl error, w') \<Rightarrow>
             (case catchBlock error w' of (wrapped, w'') \<Rightarrow> Some (Inl wrapped, w''))
         | (Inr s', w') \<Rightarrow> returnTags_loop net chainId url s' w')
      else Some (Inr (allTags s), w))"

declare returnTags_loop.simps [code]

definition returnTags :: "network \<Rightarrow> jsstring \<Rightarrow> jsstring \<Rightarrow> ((js_error + ContractTag list) \<times> world) option" where
  "returnTags net chainId apiKey =
     (let w0 = \<lparr>console = [], requests = []\<rparr>
      in case prepareUrl chainId apiKey of
           Inl error \<Rightarrow> Some (Inl error, w0)
         | Inr url \<Rightarrow>
             returnTags_loop net chainId url
               \<lparr>lastTimestamp = Num 0, allTags = [], isMore = True, counter = 0\<rparr> w0)"

section \<open>Facts about the string and number primitives\<close>

subsection \<open>Decimal rendering and \<open>parseInt\<close>\<close>

































text \<open>The two Numbers that the program prints in the runs below.\<close>

lemma toString_500: "toString 500 = str ''500''"
  by (simp add: toString_def numberToString_def overflowsDouble_def shortestDecimal_def
        shortestCandidate_def roundToDouble_def bitLength.simps digitsOfNat.simps
        digitUnit_def str_def Let_def)

lemma toString_1000: "toString 1000 = str ''1000''"
  by (simp add: toString_def numberToString_def overflowsDouble_def shortestDecimal_def
        shortestCandidate_def roundToDouble_def bitLength.simps digitsOfNat.simps
        digitUnit_def str_def Let_def)

subsection \<open>\<open>encodeURIComponent\<close> and \<open>replace\<close>\<close>

lemma hexUnit_not_dollar: "n < 16 \<Longrightarrow> hexUnit n \<noteq> cu CHR ''$''"
proof -
  assume "n < 16"
  then have "unat (hexUnit n) = (if n < 10 then 48 + n else 55 + n)"
    by (simp add: hexUnit_def unat_of_nat del: of_nat_add)
  moreover have "unat (cu CHR ''$'') = 36" by simp
  ultimately show ?thesis by (auto split: if_splits)
qed

lemma percentEncode_no_dollar:
  "\<forall>b\<in>set octets. b < 256 \<Longrightarrow> cu CHR ''$'' \<notin> set (percentEncode octets)"
proof (induction octets)
  case Nil
  then show ?case by (simp add: percentEncode_def)
next
  case (Cons b bs)
  then have hi: "b div 16 < 16" and lo: "b mod 16 < 16" by auto
  have "hexUnit (b div 16) \<noteq> cu CHR ''$''" using hi by (rule hexUnit_not_dollar)
  moreover have "hexUnit (b mod 16) \<noteq> cu CHR ''$''" using lo by (rule hexUnit_not_dollar)
  moreover have "cu CHR ''$'' \<notin> set (percentEncode bs)" using Cons by simp
  ultimately show ?case by (auto simp: percentEncode_def)
qed

lemma utf8_octets: "cp < 0x110000 \<Longrightarrow> \<forall>b\<in>set (utf8 cp). b < 256"
  by (auto simp: utf8_def)

lemma surrogatePair_bound:
  "isLeadSurrogate c \<Longrightarrow> isTrailSurrogate d \<Longrightarrow> surrogatePair c d < 0x110000"
proof -
  assume "isLeadSurrogate c" "isTrailSurrogate d"
  then have "unat c \<le> 0xDBFF" "unat d \<le> 0xDFFF"
    by (simp_all add: isLeadSurrogate_def isTrailSurrogate_def word_le_nat_alt)
  then show ?thesis by (simp add: surrogatePair_def)
qed

lemma unat_code_unit: "unat (c :: 16 word) < 0x110000"
  using unsigned_less [of c, where ?'a = nat] by simp

lemma isUriUnescaped_not_dollar: "isUriUnescaped c \<Longrightarrow> c \<noteq> cu CHR ''$''"
  by (auto simp: isUriUnescaped_def str_def)

lemma encodeURIComponent_no_dollar:
  "encodeURIComponent s = Inr r \<Longrightarrow> cu CHR ''$'' \<notin> set r"
proof (induction s arbitrary: r rule: encodeURIComponent.induct)
  case 1
  then show ?case by simp
next
  case (2 c cs)
  show ?case
  proof (cases "isUriUnescaped c")
    case True
    with "2.prems" obtain r' where r': "encodeURIComponent cs = Inr r'" "r = c # r'"
      by (auto split: sum.splits)
    with "2.IH"(1) True have "cu CHR ''$'' \<notin> set r'" by simp
    with r' isUriUnescaped_not_dollar [OF True] show ?thesis by auto
  next
    case unesc: False
    show ?thesis
    proof (cases "isLeadSurrogate c")
      case True
      with unesc "2.prems" obtain d ds r' where
        d: "cs = d # ds" "isTrailSurrogate d" "encodeURIComponent ds = Inr r'"
           "r = percentEncode (utf8 (surrogatePair c d)) @ r'"
        by (auto split: sum.splits list.splits if_splits)
      with "2.IH"(2) unesc True have "cu CHR ''$'' \<notin> set r'" by simp
      moreover have "cu CHR ''$'' \<notin> set (percentEncode (utf8 (surrogatePair c d)))"
        using True d(2) by (intro percentEncode_no_dollar utf8_octets surrogatePair_bound)
      ultimately show ?thesis using d(4) by simp
    next
      case lead: False
      with unesc "2.prems" obtain r' where
        r': "\<not> isTrailSurrogate c" "encodeURIComponent cs = Inr r'"
            "r = percentEncode (utf8 (unat c)) @ r'"
        by (auto split: sum.splits if_splits)
      with "2.IH"(3) unesc lead have "cu CHR ''$'' \<notin> set r'" by simp
      moreover have "cu CHR ''$'' \<notin> set (percentEncode (utf8 (unat c)))"
        by (intro percentEncode_no_dollar utf8_octets unat_code_unit)
      ultimately show ?thesis using r'(3) by simp
    qed
  qed
qed

lemma getSubstitution_plain:
  "cu CHR ''$'' \<notin> set rep \<Longrightarrow> getSubstitution matched preceding following rep = rep"
  by (induction matched preceding following rep rule: getSubstitution.induct) auto

lemma splitAtFirst_decompose:
  "splitAtFirst pat s = Some (preceding, following) \<Longrightarrow> s = preceding @ pat @ following"
proof (induction s arbitrary: preceding)
  case Nil
  then show ?case by (simp split: if_splits)
next
  case (Cons c cs)
  show ?case
  proof (cases "prefix pat (c # cs)")
    case True
    with Cons.prems have "preceding = []" "following = drop (length pat) (c # cs)" by simp_all
    moreover from True have "c # cs = pat @ drop (length pat) (c # cs)"
      by (metis append_eq_conv_conj prefixE)
    ultimately show ?thesis by simp
  next
    case False
    with Cons.prems obtain p' where "splitAtFirst pat cs = Some (p', following)" "preceding = c # p'"
      by auto
    with Cons.IH show ?thesis by simp
  qed
qed

lemma replace_plain:
  "cu CHR ''$'' \<notin> set rep \<Longrightarrow>
   replace s pat rep =
     (case splitAtFirst pat s of None \<Rightarrow> s | Some (preceding, following) \<Rightarrow> preceding @ rep @ following)"
  by (simp add: replace_def getSubstitution_plain split: option.splits)

text \<open>
  What \<open>replace\<close> does with a pattern: a string without the pattern is returned as it
  is; otherwise the leftmost occurrence is replaced, and only that one.
\<close>

lemma replace_absent: "\<not> sublist pat s \<Longrightarrow> replace s pat rep = s"
proof -
  assume absent: "\<not> sublist pat s"
  have "splitAtFirst pat s = None"
  proof (cases "splitAtFirst pat s")
    case None
    then show ?thesis .
  next
    case (Some found)
    then obtain preceding following where "splitAtFirst pat s = Some (preceding, following)"
      by (cases found) simp
    then have "s = preceding @ pat @ following" by (rule splitAtFirst_decompose)
    then have "sublist pat s" by (auto simp: sublist_def)
    with absent show ?thesis by simp
  qed
  then show ?thesis by (simp add: replace_def)
qed

lemma splitAtFirst_leftmost:
  "\<forall>i<length a. \<not> prefix pat (drop i (a @ pat @ b)) \<Longrightarrow>
     splitAtFirst pat (a @ pat @ b) = Some (a, b)"
proof (induction a)
  case Nil
  show ?case
  proof (cases "pat @ b")
    case Nil
    then show ?thesis by simp
  next
    case (Cons c cs)
    have "prefix pat (c # cs)" unfolding Cons [symmetric] by simp
    moreover have "drop (length pat) (c # cs) = b" unfolding Cons [symmetric] by simp
    ultimately have "splitAtFirst pat (c # cs) = Some ([], b)" by simp
    then show ?thesis unfolding Cons [symmetric] by simp
  qed
next
  case (Cons x a)
  from Cons.prems have here: "\<not> prefix pat (x # a @ pat @ b)" by force
  have "\<forall>i<length a. \<not> prefix pat (drop i (a @ pat @ b))"
  proof (intro allI impI)
    fix i
    assume "i < length a"
    then have "Suc i < length (x # a)" by simp
    with Cons.prems have "\<not> prefix pat (drop (Suc i) ((x # a) @ pat @ b))" by blast
    then show "\<not> prefix pat (drop i (a @ pat @ b))" by simp
  qed
  then have "splitAtFirst pat (a @ pat @ b) = Some (a, b)" by (rule Cons.IH)
  with here show ?case by simp
qed

lemma replace_leftmost:
  assumes "\<forall>i<length a. \<not> prefix pat (drop i (a @ pat @ b))"
    and "cu CHR ''$'' \<notin> set rep"
  shows "replace (a @ pat @ b) pat rep = a @ rep @ b"
  by (simp add: replace_plain [OF assms(2)] splitAtFirst_leftmost [OF assms(1)])

lemma replace_second_occurrence_stays:
  "replace (str ''USD//C USD//C'') (str ''USD//C'') (str ''USDC'') = str ''USDC USD//C''"
  by (simp add: replace_def str_def)

lemma splitAtFirst_template:
  "splitAtFirst (str ''[api-key]'')
     (str ''https://gateway-arbitrum.network.thegraph.com/api/[api-key]/deployments/id/QmZzsQGDmQFbzYkv2qx4pVnD6aVnuhKbD3t1ea7SAvV7zE'')
   = Some (str ''https://gateway-arbitrum.network.thegraph.com/api/'',
           str ''/deployments/id/QmZzsQGDmQFbzYkv2qx4pVnD6aVnuhKbD3t1ea7SAvV7zE'')"
  by (simp add: str_def)

subsection \<open>The regular expression\<close>

lemma tagClosesHere_iff: "tagClosesHere cs \<longleftrightarrow> cu CHR ''>'' \<in> set cs"
  by (auto simp: tagClosesHere_def dropWhile_eq_Nil_conv)

lemma regexTest_iff:
  "regexTest t \<longleftrightarrow> (\<exists>pre post. t = pre @ cu CHR ''<'' # post \<and> cu CHR ''>'' \<in> set post)"
proof (induction t)
  case Nil
  then show ?case by simp
next
  case (Cons c cs)
  show ?case
  proof
    assume "regexTest (c # cs)"
    then consider "c = cu CHR ''<''" "cu CHR ''>'' \<in> set cs" | "regexTest cs"
      by (auto simp: tagClosesHere_iff)
    then show "\<exists>pre post. c # cs = pre @ cu CHR ''<'' # post \<and> cu CHR ''>'' \<in> set post"
    proof cases
      case 1
      then have "c # cs = [] @ cu CHR ''<'' # cs" by simp
      with 1 show ?thesis by blast
    next
      case 2
      with Cons.IH obtain pre post where "cs = pre @ cu CHR ''<'' # post" "cu CHR ''>'' \<in> set post"
        by blast
      then have "c # cs = (c # pre) @ cu CHR ''<'' # post" by simp
      with \<open>cu CHR ''>'' \<in> set post\<close> show ?thesis by blast
    qed
  next
    assume "\<exists>pre post. c # cs = pre @ cu CHR ''<'' # post \<and> cu CHR ''>'' \<in> set post"
    then obtain pre post where eq: "c # cs = pre @ cu CHR ''<'' # post" and gt: "cu CHR ''>'' \<in> set post"
      by blast
    show "regexTest (c # cs)"
    proof (cases pre)
      case Nil
      with eq gt show ?thesis by (simp add: tagClosesHere_iff)
    next
      case (Cons p pre')
      with eq have "cs = pre' @ cu CHR ''<'' # post" by simp
      with gt Cons.IH have "regexTest cs" by blast
      then show ?thesis by simp
    qed
  qed
qed

lemma hasTagLikeSubstring_iff:
  "hasTagLikeSubstring t \<longleftrightarrow> (\<exists>pre post. t = pre @ cu CHR ''<'' # post \<and> cu CHR ''>'' \<in> set post)"
proof
  assume "hasTagLikeSubstring t"
  then obtain pre body post where "t = pre @ [cu CHR ''<''] @ body @ [cu CHR ''>''] @ post"
    unfolding hasTagLikeSubstring_def by blast
  then have "t = pre @ cu CHR ''<'' # (body @ cu CHR ''>'' # post)" "cu CHR ''>'' \<in> set (body @ cu CHR ''>'' # post)"
    by simp_all
  then show "\<exists>pre post. t = pre @ cu CHR ''<'' # post \<and> cu CHR ''>'' \<in> set post" by blast
next
  assume "\<exists>pre post. t = pre @ cu CHR ''<'' # post \<and> cu CHR ''>'' \<in> set post"
  then obtain pre post where t: "t = pre @ cu CHR ''<'' # post" and "cu CHR ''>'' \<in> set post" by blast
  then obtain body rest where "post = body @ cu CHR ''>'' # rest" "cu CHR ''>'' \<notin> set body"
    by (meson split_list_first)
  with t have "t = pre @ [cu CHR ''<''] @ body @ [cu CHR ''>''] @ rest \<and> cu CHR ''>'' \<notin> set body" by simp
  then show "hasTagLikeSubstring t" unfolding hasTagLikeSubstring_def by blast
qed

lemma containsHtmlOrMarkdown_iff: "containsHtmlOrMarkdown t \<longleftrightarrow> hasTagLikeSubstring t"
  by (simp add: containsHtmlOrMarkdown_def regexTest_iff hasTagLikeSubstring_iff)

section \<open>Facts about the operations\<close>

subsection \<open>\<open>prepareUrl\<close>\<close>

lemma isNaN_Number_objectPrototypeKeys: "\<forall>k\<in>set objectPrototypeKeys. isNaN_Number k"
  by code_simp

lemma not_isNaN_Number_1: "\<not> isNaN_Number (str ''1'')"
  by code_simp

lemma getProperty_SUBGRAPH_URLS:
  "getProperty SUBGRAPH_URLS chainId =
     (if chainId = str ''1'' then Own (snd (hd SUBGRAPH_URLS))
      else if chainId \<in> set objectPrototypeKeys then Inherited else Undefined)"
  by (simp add: getProperty_def SUBGRAPH_URLS_def)

lemma prepareUrl_unsupported:
  assumes "chainId \<noteq> str ''1''"
  shows "prepareUrl chainId apiKey =
           Inl (newError (str ''Unsupported or invalid Chain ID provided: '' @ chainId
                          @ str ''. Only the following values are accepted: '' @ str ''1''))"
proof -
  have "getProperty SUBGRAPH_URLS chainId = Undefined \<or> isNaN_Number chainId"
    using assms isNaN_Number_objectPrototypeKeys by (auto simp: getProperty_SUBGRAPH_URLS)
  moreover have "join (str '', '') (objectKeys SUBGRAPH_URLS) = str ''1''"
    by (simp add: objectKeys_def SUBGRAPH_URLS_def)
  ultimately show ?thesis by (simp add: prepareUrl_def Let_def)
qed

lemma prepareUrl_supported:
  "prepareUrl (str ''1'') apiKey =
     (case encodeURIComponent apiKey of
        Inl e \<Rightarrow> Inl e
      | Inr encoded \<Rightarrow>
          Inr (str ''https://gateway-arbitrum.network.thegraph.com/api/'' @ encoded
               @ str ''/deployments/id/QmZzsQGDmQFbzYkv2qx4pVnD6aVnuhKbD3t1ea7SAvV7zE''))"
proof -
  have own: "getProperty SUBGRAPH_URLS (str ''1'') = Own (snd (hd SUBGRAPH_URLS))"
    by (simp add: getProperty_SUBGRAPH_URLS)
  have tmpl: "decentralized (snd (hd SUBGRAPH_URLS)) =
      str ''https://gateway-arbitrum.network.thegraph.com/api/[api-key]/deployments/id/QmZzsQGDmQFbzYkv2qx4pVnD6aVnuhKbD3t1ea7SAvV7zE''"
    by (simp add: SUBGRAPH_URLS_def)
  show ?thesis
  proof (cases "encodeURIComponent apiKey")
    case (Inl e)
    with own not_isNaN_Number_1 show ?thesis by (simp add: prepareUrl_def)
  next
    case (Inr encoded)
    then have nd: "cu CHR ''$'' \<notin> set encoded" by (rule encodeURIComponent_no_dollar)
    have "replace (decentralized (snd (hd SUBGRAPH_URLS))) (str ''[api-key]'') encoded
      = str ''https://gateway-arbitrum.network.thegraph.com/api/'' @ encoded
               @ str ''/deployments/id/QmZzsQGDmQFbzYkv2qx4pVnD6aVnuhKbD3t1ea7SAvV7zE''"
      by (simp only: replace_plain [OF nd] tmpl splitAtFirst_template option.case prod.case)
    with Inr own not_isNaN_Number_1 show ?thesis by (simp add: prepareUrl_def)
  qed
qed

subsection \<open>\<open>transformPairsToTags\<close>\<close>

lemma foldl_classifyPair_fst:
  "fst (foldl classifyPair (v, r) ps) = v @ filter (\<lambda>p. \<not> token0Invalid p \<and> \<not> token1Invalid p) ps"
  by (induction ps arbitrary: v r) (auto simp: classifyPair_def)

lemma transformPairsToTags_tags:
  "fst (transformPairsToTags chainId ps)
     = map (pairToTag chainId) (filter (\<lambda>p. \<not> token0Invalid p \<and> \<not> token1Invalid p) ps)"
proof -
  obtain v r where f: "foldl classifyPair ([], []) ps = (v, r)" by (cases "foldl classifyPair ([], []) ps")
  from foldl_classifyPair_fst [of "[]" "[]" ps] f
  have "v = filter (\<lambda>p. \<not> token0Invalid p \<and> \<not> token1Invalid p) ps" by simp
  with f show ?thesis by (simp add: transformPairsToTags_def)
qed

lemma foldl_classifyPair_snd:
  "snd (foldl classifyPair (v, r) ps) =
     r @ concat (map (\<lambda>pair.
           (if token0Invalid pair
            then [name (token0 pair) @ str '', Symbol: '' @ symbol (token0 pair)] else [])
           @ (if token1Invalid pair
              then [name (token1 pair) @ str '', Symbol: '' @ symbol (token1 pair)] else [])) ps)"
  by (induction ps arbitrary: v r) (auto simp: classifyPair_def)

lemma transformPairsToTags_console:
  "snd (transformPairsToTags chainId ps) =
     (let rejectedNames = concat (map (\<lambda>pair.
           (if token0Invalid pair
            then [name (token0 pair) @ str '', Symbol: '' @ symbol (token0 pair)] else [])
           @ (if token1Invalid pair
              then [name (token1 pair) @ str '', Symbol: '' @ symbol (token1 pair)] else [])) ps)
      in if rejectedNames = [] then []
         else [ConsoleLogList (str ''Rejected token names due to HTML/Markdown content:'')
                 rejectedNames])"
proof -
  obtain v r where f: "foldl classifyPair ([], []) ps = (v, r)"
    by (cases "foldl classifyPair ([], []) ps")
  from foldl_classifyPair_snd [of "[]" "[]" ps] f
  have "r = concat (map (\<lambda>pair.
           (if token0Invalid pair
            then [name (token0 pair) @ str '', Symbol: '' @ symbol (token0 pair)] else [])
           @ (if token1Invalid pair
              then [name (token1 pair) @ str '', Symbol: '' @ symbol (token1 pair)] else [])) ps)"
    by simp
  with f show ?thesis by (simp add: transformPairsToTags_def Let_def)
qed

subsection \<open>The pagination loop\<close>


section \<open>The claims\<close>

subsection \<open>\<open>prepareUrl\<close>\<close>

lemma encodeURIComponent_error: "encodeURIComponent s = Inl e \<Longrightarrow> e = uriError"
  by (induction s rule: encodeURIComponent.induct)
     (auto split: if_splits sum.splits list.splits)

lemma map_of_SUBGRAPH_URLS:
  "map_of SUBGRAPH_URLS chainId = (if chainId = str ''1'' then Some (snd (hd SUBGRAPH_URLS)) else None)"
  by (simp add: SUBGRAPH_URLS_def)

lemma decentralized_template:
  "decentralized (snd (hd SUBGRAPH_URLS)) =
     str ''https://gateway-arbitrum.network.thegraph.com/api/'' @ str ''[api-key]''
     @ str ''/deployments/id/QmZzsQGDmQFbzYkv2qx4pVnD6aVnuhKbD3t1ea7SAvV7zE''"
  by (simp add: SUBGRAPH_URLS_def str_def)

text \<open>
  C3 (as amended). A chain id that is absent from \<open>SUBGRAPH_URLS\<close> or is not numeric
  makes \<open>prepareUrl\<close> fail with an error whose message lists the keys of the table, which
  are exactly \<open>1\<close>. For a chain id of the table, with endpoint template \<open>u\<close>: when
  \<open>encodeURIComponent\<close> encodes the API key, \<open>prepareUrl\<close> returns the template with
  \<open>[api-key]\<close> replaced by the encoded key; when the key holds an unpaired surrogate,
  \<open>encodeURIComponent\<close> throws \<open>URIError\<close> and so does \<open>prepareUrl\<close>.
\<close>

theorem prepareUrl_contract:
  "(map_of SUBGRAPH_URLS chainId = None \<or> isNaN_Number chainId \<longrightarrow>
      prepareUrl chainId apiKey =
        Inl (newError (str ''Unsupported or invalid Chain ID provided: '' @ chainId
                       @ str ''. Only the following values are accepted: ''
                       @ join (str '', '') (map fst SUBGRAPH_URLS))))
   \<and> join (str '', '') (map fst SUBGRAPH_URLS) = str ''1''
   \<and> (\<forall>u encoded.
         map_of SUBGRAPH_URLS chainId = Some u \<and> encodeURIComponent apiKey = Inr encoded \<longrightarrow>
           decentralized u =
             str ''https://gateway-arbitrum.network.thegraph.com/api/'' @ str ''[api-key]''
             @ str ''/deployments/id/QmZzsQGDmQFbzYkv2qx4pVnD6aVnuhKbD3t1ea7SAvV7zE''
           \<and> prepareUrl chainId apiKey =
               Inr (str ''https://gateway-arbitrum.network.thegraph.com/api/'' @ encoded
                    @ str ''/deployments/id/QmZzsQGDmQFbzYkv2qx4pVnD6aVnuhKbD3t1ea7SAvV7zE''))
   \<and> (\<forall>u e.
         map_of SUBGRAPH_URLS chainId = Some u \<and> encodeURIComponent apiKey = Inl e \<longrightarrow>
           e = uriError \<and> prepareUrl chainId apiKey = Inl uriError)"
proof (intro conjI impI allI)
  have keys: "join (str '', '') (map fst SUBGRAPH_URLS) = str ''1''"
    by (simp add: SUBGRAPH_URLS_def)
  show "join (str '', '') (map fst SUBGRAPH_URLS) = str ''1''" by (rule keys)
  assume "map_of SUBGRAPH_URLS chainId = None \<or> isNaN_Number chainId"
  with not_isNaN_Number_1 have "chainId \<noteq> str ''1''"
    by (auto simp: map_of_SUBGRAPH_URLS split: if_splits)
  then show "prepareUrl chainId apiKey =
        Inl (newError (str ''Unsupported or invalid Chain ID provided: '' @ chainId
                       @ str ''. Only the following values are accepted: ''
                       @ join (str '', '') (map fst SUBGRAPH_URLS)))"
    unfolding keys by (rule prepareUrl_unsupported)
next
  fix u encoded
  assume a: "map_of SUBGRAPH_URLS chainId = Some u \<and> encodeURIComponent apiKey = Inr encoded"
  then have c: "chainId = str ''1''" and u: "u = snd (hd SUBGRAPH_URLS)"
    by (auto simp: map_of_SUBGRAPH_URLS split: if_splits)
  show "decentralized u =
             str ''https://gateway-arbitrum.network.thegraph.com/api/'' @ str ''[api-key]''
             @ str ''/deployments/id/QmZzsQGDmQFbzYkv2qx4pVnD6aVnuhKbD3t1ea7SAvV7zE''"
    unfolding u by (rule decentralized_template)
  from a show "prepareUrl chainId apiKey =
               Inr (str ''https://gateway-arbitrum.network.thegraph.com/api/'' @ encoded
                    @ str ''/deployments/id/QmZzsQGDmQFbzYkv2qx4pVnD6aVnuhKbD3t1ea7SAvV7zE'')"
    unfolding c by (simp add: prepareUrl_supported)
next
  fix u e
  assume a: "map_of SUBGRAPH_URLS chainId = Some u \<and> encodeURIComponent apiKey = Inl e"
  then have c: "chainId = str ''1''"
    by (auto simp: map_of_SUBGRAPH_URLS split: if_splits)
  from a show e: "e = uriError" by (blast dest: encodeURIComponent_error)
  from a show "prepareUrl chainId apiKey = Inl uriError"
    unfolding c using e by (simp add: prepareUrl_supported)
qed

theorem prepareUrl_contract_witness:
  "map_of SUBGRAPH_URLS (str ''5'') = None
   \<and> prepareUrl (str ''5'') (str ''a b'') =
       Inl (newError (str ''Unsupported or invalid Chain ID provided: 5. Only the following values are accepted: 1''))
   \<and> isNaN_Number (str ''toString'')
   \<and> prepareUrl (str ''toString'') (str ''a b'') =
       Inl (newError (str ''Unsupported or invalid Chain ID provided: toString. Only the following values are accepted: 1''))
   \<and> map_of SUBGRAPH_URLS (str ''1'') = Some (snd (hd SUBGRAPH_URLS))
   \<and> encodeURIComponent (str ''a b'') = Inr (str ''a%20b'')
   \<and> prepareUrl (str ''1'') (str ''a b'') =
       Inr (str ''https://gateway-arbitrum.network.thegraph.com/api/a%20b/deployments/id/QmZzsQGDmQFbzYkv2qx4pVnD6aVnuhKbD3t1ea7SAvV7zE'')
   \<and> encodeURIComponent [0xDC00] = Inl uriError
   \<and> prepareUrl (str ''1'') [0xDC00] = Inl uriError"
proof -
  have absent: "map_of SUBGRAPH_URLS (str ''5'') = None"
    by (simp add: map_of_SUBGRAPH_URLS str_def)
  have nan: "isNaN_Number (str ''toString'')" by code_simp
  have present: "map_of SUBGRAPH_URLS (str ''1'') = Some (snd (hd SUBGRAPH_URLS))"
    by (simp add: map_of_SUBGRAPH_URLS)
  have enc: "encodeURIComponent (str ''a b'') = Inr (str ''a%20b'')" by code_simp
  have bad: "encodeURIComponent [0xDC00] = Inl uriError" by code_simp
  note t5 = prepareUrl_contract [of "str ''5''" "str ''a b''"]
  note tS = prepareUrl_contract [of "str ''toString''" "str ''a b''"]
  note t1 = prepareUrl_contract [of "str ''1''" "str ''a b''"]
  note tB = prepareUrl_contract [of "str ''1''" "[0xDC00]"]
  have r5: "prepareUrl (str ''5'') (str ''a b'') =
       Inl (newError (str ''Unsupported or invalid Chain ID provided: 5. Only the following values are accepted: 1''))"
    using t5 absent by (simp add: str_def)
  have rS: "prepareUrl (str ''toString'') (str ''a b'') =
       Inl (newError (str ''Unsupported or invalid Chain ID provided: toString. Only the following values are accepted: 1''))"
    using tS nan by (simp add: str_def)
  have r1: "prepareUrl (str ''1'') (str ''a b'') =
       Inr (str ''https://gateway-arbitrum.network.thegraph.com/api/a%20b/deployments/id/QmZzsQGDmQFbzYkv2qx4pVnD6aVnuhKbD3t1ea7SAvV7zE'')"
    using t1 present enc by (simp add: str_def)
  have rB: "prepareUrl (str ''1'') [0xDC00] = Inl uriError"
    using tB present bad by simp
  from absent nan present enc bad r5 rS r1 rB show ?thesis by blast
qed

theorem prepareUrl_unpaired_surrogate_counterexample:
  "map_of SUBGRAPH_URLS (str ''1'') = Some (snd (hd SUBGRAPH_URLS))
   \<and> prepareUrl (str ''1'') [0xD800] = Inl uriError"
proof -
  have "encodeURIComponent [0xD800] = Inl uriError" by code_simp
  then show ?thesis by (simp add: map_of_SUBGRAPH_URLS prepareUrl_supported)
qed

subsection \<open>\<open>truncateString\<close>\<close>

lemma truncateString_long:
  "45 < length t \<Longrightarrow>
     length (truncateString t 45) = 45 \<and> drop 42 (truncateString t 45) = str ''...''"
  by (simp add: truncateString_def str_def)

lemma truncateString_short: "length t \<le> 45 \<Longrightarrow> truncateString t 45 = t"
  by (simp add: truncateString_def)

text \<open>
  C4. The symbols string of a pair is the trimmed symbol of \<open>token0\<close>, a slash and the
  trimmed symbol of \<open>token1\<close>. When it is longer than 45 code units, the text that
  \<open>truncateString\<close> returns has exactly 45 code units and its last three are \<open>...\<close>;
  when its length is at most 45, it is returned unchanged. This truncated text, with bound
  45, is the one that the name tag of the pair is built from.
\<close>

theorem truncateString_symbols:
  "symbolsText pair = trim (symbol (token0 pair)) @ str ''/'' @ trim (symbol (token1 pair))
   \<and> (45 < length (symbolsText pair) \<longrightarrow>
        length (truncateString (symbolsText pair) 45) = 45
        \<and> drop 42 (truncateString (symbolsText pair) 45) = str ''...'')
   \<and> (length (symbolsText pair) \<le> 45 \<longrightarrow>
        truncateString (symbolsText pair) 45 = symbolsText pair)
   \<and> Public_Name_Tag (pairToTag chainId pair)
       = truncateString (symbolsText pair) 45 @ str '' Pair''"
proof (intro conjI impI)
  show "symbolsText pair = trim (symbol (token0 pair)) @ str ''/'' @ trim (symbol (token1 pair))"
    by (simp add: symbolsText_def)
  show "Public_Name_Tag (pairToTag chainId pair)
       = truncateString (symbolsText pair) 45 @ str '' Pair''"
    by (simp add: pairToTag_def)
next
  assume "45 < length (symbolsText pair)"
  then show "length (truncateString (symbolsText pair) 45) = 45"
    and "drop 42 (truncateString (symbolsText pair) 45) = str ''...''"
    by (simp_all only: truncateString_long)
next
  assume "length (symbolsText pair) \<le> 45"
  then show "truncateString (symbolsText pair) 45 = symbolsText pair"
    by (rule truncateString_short)
qed

theorem truncateString_symbols_witness:
  "length (symbolsText
      \<lparr>pair_id = str ''0xabc'', createdAtTimestamp = 7,
       token0 = \<lparr>token_id = str ''0x01'', name = str ''Long'',
                 symbol = str '' ABCDEFGHIJKLMNOPQRSTUVWXYZABCD ''\<rparr>,
       token1 = \<lparr>token_id = str ''0x02'', name = str ''Longer'',
                 symbol = str ''abcdefghijklmnopqrs''\<rparr>\<rparr>) = 50
   \<and> truncateString (symbolsText
      \<lparr>pair_id = str ''0xabc'', createdAtTimestamp = 7,
       token0 = \<lparr>token_id = str ''0x01'', name = str ''Long'',
                 symbol = str '' ABCDEFGHIJKLMNOPQRSTUVWXYZABCD ''\<rparr>,
       token1 = \<lparr>token_id = str ''0x02'', name = str ''Longer'',
                 symbol = str ''abcdefghijklmnopqrs''\<rparr>\<rparr>) 45
     = str ''ABCDEFGHIJKLMNOPQRSTUVWXYZABCD/abcdefghijk...''
   \<and> length (str ''ABCDEFGHIJKLMNOPQRSTUVWXYZABCD/abcdefghijk...'') = 45
   \<and> truncateString (symbolsText
      \<lparr>pair_id = str ''0xdef'', createdAtTimestamp = 8,
       token0 = \<lparr>token_id = str ''0x03'', name = str ''USD Coin'', symbol = str ''USDC''\<rparr>,
       token1 = \<lparr>token_id = str ''0x04'', name = str ''Wrapped Ether'', symbol = str ''WETH ''\<rparr>\<rparr>) 45
     = str ''USDC/WETH''"
proof -
  let ?long = "\<lparr>pair_id = str ''0xabc'', createdAtTimestamp = 7,
       token0 = \<lparr>token_id = str ''0x01'', name = str ''Long'',
                 symbol = str '' ABCDEFGHIJKLMNOPQRSTUVWXYZABCD ''\<rparr>,
       token1 = \<lparr>token_id = str ''0x02'', name = str ''Longer'',
                 symbol = str ''abcdefghijklmnopqrs''\<rparr>\<rparr>"
  let ?short = "\<lparr>pair_id = str ''0xdef'', createdAtTimestamp = 8,
       token0 = \<lparr>token_id = str ''0x03'', name = str ''USD Coin'', symbol = str ''USDC''\<rparr>,
       token1 = \<lparr>token_id = str ''0x04'', name = str ''Wrapped Ether'', symbol = str ''WETH ''\<rparr>\<rparr>"
  have long: "symbolsText ?long = str ''ABCDEFGHIJKLMNOPQRSTUVWXYZABCD/abcdefghijklmnopqrs''"
    by (simp add: symbolsText_def trim_def isWhiteSpace_def str_def)
  have short: "symbolsText ?short = str ''USDC/WETH''"
    by (simp add: symbolsText_def trim_def isWhiteSpace_def str_def)
  have l1: "length (symbolsText ?long) = 50" unfolding long by (simp add: str_def)
  have l2: "length (symbolsText ?short) \<le> 45" unfolding short by (simp add: str_def)
  have gt: "45 < length (symbolsText ?long)" unfolding l1 by simp
  note long_case = truncateString_symbols [where pair = ?long and chainId = "str ''1''", THEN conjunct2, THEN conjunct1, THEN mp, OF gt]
  note d1 = long_case [THEN conjunct2]
  have "truncateString (symbolsText ?long) 45
          = take 42 (truncateString (symbolsText ?long) 45) @ drop 42 (truncateString (symbolsText ?long) 45)"
    by simp
  also have "take 42 (truncateString (symbolsText ?long) 45) = str ''ABCDEFGHIJKLMNOPQRSTUVWXYZABCD/abcdefghijk''"
    unfolding long by (simp add: truncateString_def str_def)
  finally have r1: "truncateString (symbolsText ?long) 45 = str ''ABCDEFGHIJKLMNOPQRSTUVWXYZABCD/abcdefghijk...''"
    unfolding d1 by (simp add: str_def)
  note short_case = truncateString_symbols [where pair = ?short and chainId = "str ''1''", THEN conjunct2, THEN conjunct2, THEN conjunct1, THEN mp, OF l2]
  have r2: "truncateString (symbolsText ?short) 45 = str ''USDC/WETH''"
    using short_case unfolding short .
  have l3: "length (str ''ABCDEFGHIJKLMNOPQRSTUVWXYZABCD/abcdefghijk...'') = 45" by (simp add: str_def)
  from l1 r1 l3 r2 show ?thesis by blast
qed

subsection \<open>\<open>transformPairsToTags\<close>\<close>

lemma pairValid_iff:
  "\<not> token0Invalid pair \<and> \<not> token1Invalid pair \<longleftrightarrow>
     \<not> hasTagLikeSubstring (name (token0 pair)) \<and> \<not> hasTagLikeSubstring (symbol (token0 pair))
     \<and> \<not> hasTagLikeSubstring (name (token1 pair)) \<and> \<not> hasTagLikeSubstring (symbol (token1 pair))"
  by (auto simp: token0Invalid_def token1Invalid_def containsHtmlOrMarkdown_iff)

lemma token0Invalid_iff:
  "token0Invalid pair \<longleftrightarrow>
     hasTagLikeSubstring (name (token0 pair)) \<or> hasTagLikeSubstring (symbol (token0 pair))"
  by (simp add: token0Invalid_def containsHtmlOrMarkdown_iff)

lemma token1Invalid_iff:
  "token1Invalid pair \<longleftrightarrow>
     hasTagLikeSubstring (name (token1 pair)) \<or> hasTagLikeSubstring (symbol (token1 pair))"
  by (simp add: token1Invalid_def containsHtmlOrMarkdown_iff)

lemma tryBlock_fetched:
  assumes "fetchData net url (lastTimestamp s) w = (Inr ps, w1)"
  shows "\<exists>s' w2. tryBlock net chainId url s w = (Inr s', w2)
           \<and> allTags s' = allTags s @ fst (transformPairsToTags chainId ps)
           \<and> console w2 = console w1 @ snd (transformPairsToTags chainId ps)
                @ [ConsoleLog (str ''Retrieved first '' @ toString (int ((counter s + 1) * 1000))
                               @ str '' entries...'')]"
  using assms by (simp add: tryBlock_def Let_def split: prod.splits)

text \<open>
  C5. The tags that \<open>transformPairsToTags\<close> returns are those of exactly the pairs none of
  whose four fields \<open>token0.name\<close>, \<open>token0.symbol\<close>, \<open>token1.name\<close>, \<open>token1.symbol\<close>
  contains a substring of the shape \<open><...>\<close>, in the order of the input. The function
  has no failing branch. What it writes to the console is the log of the rejections: for
  every pair, in order, the name and symbol of \<open>token0\<close> when one of these two contains
  such a substring, then those of \<open>token1\<close> likewise; one \<open>console.log\<close> entry with this
  list when it is not empty, and nothing otherwise. And in the loop of \<open>returnTags\<close>,
  once \<open>fetchData\<close> has returned a page, the \<open>try\<close> block completes whatever the page
  holds, adding those tags to \<open>allTags\<close> and that log to the console.
\<close>

theorem transformPairsToTags_rejects_markup:
  "fst (transformPairsToTags chainId ps)
     = map (pairToTag chainId)
         (filter (\<lambda>pair. \<not> hasTagLikeSubstring (name (token0 pair))
                        \<and> \<not> hasTagLikeSubstring (symbol (token0 pair))
                        \<and> \<not> hasTagLikeSubstring (name (token1 pair))
                        \<and> \<not> hasTagLikeSubstring (symbol (token1 pair))) ps)
   \<and> snd (transformPairsToTags chainId ps)
       = (let rejectedNames = concat (map (\<lambda>pair.
                (if hasTagLikeSubstring (name (token0 pair))
                    \<or> hasTagLikeSubstring (symbol (token0 pair))
                 then [name (token0 pair) @ str '', Symbol: '' @ symbol (token0 pair)] else [])
                @ (if hasTagLikeSubstring (name (token1 pair))
                      \<or> hasTagLikeSubstring (symbol (token1 pair))
                   then [name (token1 pair) @ str '', Symbol: '' @ symbol (token1 pair)]
                   else [])) ps)
          in if rejectedNames = [] then []
             else [ConsoleLogList (str ''Rejected token names due to HTML/Markdown content:'')
                     rejectedNames])
   \<and> (\<forall>w1. fetchData net url (lastTimestamp s) w = (Inr ps, w1) \<longrightarrow>
          (\<exists>s' w2. tryBlock net chainId url s w = (Inr s', w2)
             \<and> allTags s' = allTags s @ fst (transformPairsToTags chainId ps)
             \<and> console w2 = console w1 @ snd (transformPairsToTags chainId ps)
                  @ [ConsoleLog (str ''Retrieved first ''
                                 @ toString (int ((counter s + 1) * 1000))
                                 @ str '' entries...'')]))"
proof (intro conjI allI impI)
  show "fst (transformPairsToTags chainId ps)
     = map (pairToTag chainId)
         (filter (\<lambda>pair. \<not> hasTagLikeSubstring (name (token0 pair))
                        \<and> \<not> hasTagLikeSubstring (symbol (token0 pair))
                        \<and> \<not> hasTagLikeSubstring (name (token1 pair))
                        \<and> \<not> hasTagLikeSubstring (symbol (token1 pair))) ps)"
    by (simp only: transformPairsToTags_tags pairValid_iff)
  show "snd (transformPairsToTags chainId ps)
       = (let rejectedNames = concat (map (\<lambda>pair.
                (if hasTagLikeSubstring (name (token0 pair))
                    \<or> hasTagLikeSubstring (symbol (token0 pair))
                 then [name (token0 pair) @ str '', Symbol: '' @ symbol (token0 pair)] else [])
                @ (if hasTagLikeSubstring (name (token1 pair))
                      \<or> hasTagLikeSubstring (symbol (token1 pair))
                   then [name (token1 pair) @ str '', Symbol: '' @ symbol (token1 pair)]
                   else [])) ps)
          in if rejectedNames = [] then []
             else [ConsoleLogList (str ''Rejected token names due to HTML/Markdown content:'')
                     rejectedNames])"
    by (simp only: transformPairsToTags_console token0Invalid_iff token1Invalid_iff)
next
  fix w1
  assume "fetchData net url (lastTimestamp s) w = (Inr ps, w1)"
  then show "\<exists>s' w2. tryBlock net chainId url s w = (Inr s', w2)
             \<and> allTags s' = allTags s @ fst (transformPairsToTags chainId ps)
             \<and> console w2 = console w1 @ snd (transformPairsToTags chainId ps)
                  @ [ConsoleLog (str ''Retrieved first ''
                                 @ toString (int ((counter s + 1) * 1000))
                                 @ str '' entries...'')]"
    by (rule tryBlock_fetched)
qed

theorem transformPairsToTags_rejects_markup_witness:
  "fst (transformPairsToTags (str ''1'')
      [\<lparr>pair_id = str ''0xbad'', createdAtTimestamp = 1,
        token0 = \<lparr>token_id = str ''0x01'', name = str ''<script>'', symbol = str ''BAD''\<rparr>,
        token1 = \<lparr>token_id = str ''0x02'', name = str ''Wrapped Ether'', symbol = str ''WETH''\<rparr>\<rparr>,
       \<lparr>pair_id = str ''0xabc'', createdAtTimestamp = 2,
        token0 = \<lparr>token_id = str ''0x03'', name = str ''Dai Stablecoin'', symbol = str ''DAI''\<rparr>,
        token1 = \<lparr>token_id = str ''0x02'', name = str ''Wrapped Ether'', symbol = str ''WETH''\<rparr>\<rparr>])
     = [pairToTag (str ''1'')
         \<lparr>pair_id = str ''0xabc'', createdAtTimestamp = 2,
          token0 = \<lparr>token_id = str ''0x03'', name = str ''Dai Stablecoin'', symbol = str ''DAI''\<rparr>,
          token1 = \<lparr>token_id = str ''0x02'', name = str ''Wrapped Ether'', symbol = str ''WETH''\<rparr>\<rparr>]
   \<and> snd (transformPairsToTags (str ''1'')
      [\<lparr>pair_id = str ''0xbad'', createdAtTimestamp = 1,
        token0 = \<lparr>token_id = str ''0x01'', name = str ''<script>'', symbol = str ''BAD''\<rparr>,
        token1 = \<lparr>token_id = str ''0x02'', name = str ''Wrapped Ether'', symbol = str ''WETH''\<rparr>\<rparr>,
       \<lparr>pair_id = str ''0xabc'', createdAtTimestamp = 2,
        token0 = \<lparr>token_id = str ''0x03'', name = str ''Dai Stablecoin'', symbol = str ''DAI''\<rparr>,
        token1 = \<lparr>token_id = str ''0x02'', name = str ''Wrapped Ether'', symbol = str ''WETH''\<rparr>\<rparr>])
     = [ConsoleLogList (str ''Rejected token names due to HTML/Markdown content:'')
          [str ''<script>, Symbol: BAD'']]
   \<and> fetchData
        (\<lambda>n. Inr \<lparr>ok = True, status = 200,
                   json = Inr \<lparr>data = Some \<lparr>pairs = Some
      [\<lparr>pair_id = str ''0xbad'', createdAtTimestamp = 1,
        token0 = \<lparr>token_id = str ''0x01'', name = str ''<script>'', symbol = str ''BAD''\<rparr>,
        token1 = \<lparr>token_id = str ''0x02'', name = str ''Wrapped Ether'', symbol = str ''WETH''\<rparr>\<rparr>,
       \<lparr>pair_id = str ''0xabc'', createdAtTimestamp = 2,
        token0 = \<lparr>token_id = str ''0x03'', name = str ''Dai Stablecoin'', symbol = str ''DAI''\<rparr>,
        token1 = \<lparr>token_id = str ''0x02'', name = str ''Wrapped Ether'', symbol = str ''WETH''\<rparr>\<rparr>]\<rparr>,
                     errors = None\<rparr>\<rparr>)
        (str ''https://example.org'')
        (lastTimestamp \<lparr>lastTimestamp = Num 0, allTags = [], isMore = True, counter = 0\<rparr>)
        \<lparr>console = [], requests = []\<rparr>
     = (Inr
      [\<lparr>pair_id = str ''0xbad'', createdAtTimestamp = 1,
        token0 = \<lparr>token_id = str ''0x01'', name = str ''<script>'', symbol = str ''BAD''\<rparr>,
        token1 = \<lparr>token_id = str ''0x02'', name = str ''Wrapped Ether'', symbol = str ''WETH''\<rparr>\<rparr>,
       \<lparr>pair_id = str ''0xabc'', createdAtTimestamp = 2,
        token0 = \<lparr>token_id = str ''0x03'', name = str ''Dai Stablecoin'', symbol = str ''DAI''\<rparr>,
        token1 = \<lparr>token_id = str ''0x02'', name = str ''Wrapped Ether'', symbol = str ''WETH''\<rparr>\<rparr>],
        \<lparr>console = [], requests = [(str ''https://example.org'', Num 0)]\<rparr>)
   \<and> (\<exists>s' w2.
        tryBlock
        (\<lambda>n. Inr \<lparr>ok = True, status = 200,
                   json = Inr \<lparr>data = Some \<lparr>pairs = Some
      [\<lparr>pair_id = str ''0xbad'', createdAtTimestamp = 1,
        token0 = \<lparr>token_id = str ''0x01'', name = str ''<script>'', symbol = str ''BAD''\<rparr>,
        token1 = \<lparr>token_id = str ''0x02'', name = str ''Wrapped Ether'', symbol = str ''WETH''\<rparr>\<rparr>,
       \<lparr>pair_id = str ''0xabc'', createdAtTimestamp = 2,
        token0 = \<lparr>token_id = str ''0x03'', name = str ''Dai Stablecoin'', symbol = str ''DAI''\<rparr>,
        token1 = \<lparr>token_id = str ''0x02'', name = str ''Wrapped Ether'', symbol = str ''WETH''\<rparr>\<rparr>]\<rparr>,
                     errors = None\<rparr>\<rparr>)
        (str ''1'') (str ''https://example.org'')
        \<lparr>lastTimestamp = Num 0, allTags = [], isMore = True, counter = 0\<rparr>
        \<lparr>console = [], requests = []\<rparr> = (Inr s', w2)
        \<and> allTags s' = [pairToTag (str ''1'')
         \<lparr>pair_id = str ''0xabc'', createdAtTimestamp = 2,
          token0 = \<lparr>token_id = str ''0x03'', name = str ''Dai Stablecoin'', symbol = str ''DAI''\<rparr>,
          token1 = \<lparr>token_id = str ''0x02'', name = str ''Wrapped Ether'', symbol = str ''WETH''\<rparr>\<rparr>]
        \<and> console w2 =
            [ConsoleLogList (str ''Rejected token names due to HTML/Markdown content:'')
               [str ''<script>, Symbol: BAD''],
             ConsoleLog (str ''Retrieved first 1000 entries...'')])"
proof -
  let ?bad = "\<lparr>pair_id = str ''0xbad'', createdAtTimestamp = 1,
        token0 = \<lparr>token_id = str ''0x01'', name = str ''<script>'', symbol = str ''BAD''\<rparr>,
        token1 = \<lparr>token_id = str ''0x02'', name = str ''Wrapped Ether'', symbol = str ''WETH''\<rparr>\<rparr>"
  let ?good = "\<lparr>pair_id = str ''0xabc'', createdAtTimestamp = 2,
        token0 = \<lparr>token_id = str ''0x03'', name = str ''Dai Stablecoin'', symbol = str ''DAI''\<rparr>,
        token1 = \<lparr>token_id = str ''0x02'', name = str ''Wrapped Ether'', symbol = str ''WETH''\<rparr>\<rparr>"
  let ?net = "\<lambda>n::nat. Inr \<lparr>ok = True, status = 200,
                   json = Inr \<lparr>data = Some \<lparr>pairs = Some [?bad, ?good]\<rparr>, errors = None\<rparr>\<rparr>
                :: thrown + http_response"
  let ?s = "\<lparr>lastTimestamp = Num 0, allTags = [], isMore = True, counter = 0\<rparr>"
  let ?w = "\<lparr>console = [], requests = []\<rparr>"
  let ?url = "str ''https://example.org''"
  let ?logged = "[ConsoleLogList (str ''Rejected token names due to HTML/Markdown content:'')
                    [str ''<script>, Symbol: BAD'']]"
  have markup: "hasTagLikeSubstring (str ''<script>'')"
    by (simp add: containsHtmlOrMarkdown_iff [symmetric] containsHtmlOrMarkdown_def
          tagClosesHere_def str_def)
  have plain: "\<not> hasTagLikeSubstring (str ''Dai Stablecoin'')" "\<not> hasTagLikeSubstring (str ''DAI'')"
    "\<not> hasTagLikeSubstring (str ''Wrapped Ether'')" "\<not> hasTagLikeSubstring (str ''WETH'')"
    "\<not> hasTagLikeSubstring (str ''BAD'')"
    by (simp_all add: containsHtmlOrMarkdown_iff [symmetric] containsHtmlOrMarkdown_def
          tagClosesHere_def str_def)
  note T = transformPairsToTags_rejects_markup
    [where chainId = "str ''1''" and ps = "[?bad, ?good]" and net = ?net and url = ?url
       and s = ?s and w = ?w]
  have tags: "fst (transformPairsToTags (str ''1'') [?bad, ?good]) = [pairToTag (str ''1'') ?good]"
    using T [THEN conjunct1] markup plain by simp
  have "snd (transformPairsToTags (str ''1'') [?bad, ?good])
          = [ConsoleLogList (str ''Rejected token names due to HTML/Markdown content:'')
               [str ''<script>'' @ str '', Symbol: '' @ str ''BAD'']]"
    using T [THEN conjunct2, THEN conjunct1] markup plain by simp
  also have "str ''<script>'' @ str '', Symbol: '' @ str ''BAD'' = str ''<script>, Symbol: BAD''"
    by (simp add: str_def)
  finally have logged: "snd (transformPairsToTags (str ''1'') [?bad, ?good]) = ?logged" .
  have fetched: "fetchData ?net ?url (lastTimestamp ?s) ?w
      = (Inr [?bad, ?good], \<lparr>console = [], requests = [(?url, Num 0)]\<rparr>)"
    by (simp add: fetchData_def)
  have banner: "str ''Retrieved first '' @ toString (int ((counter ?s + 1) * 1000))
                  @ str '' entries...'' = str ''Retrieved first 1000 entries...''"
    by (simp add: toString_1000 str_def)
  from T [THEN conjunct2, THEN conjunct2, rule_format, OF fetched]
  have "\<exists>s' w2. tryBlock ?net (str ''1'') ?url ?s ?w = (Inr s', w2)
          \<and> allTags s' = [pairToTag (str ''1'') ?good]
          \<and> console w2 = ?logged @ [ConsoleLog (str ''Retrieved first 1000 entries...'')]"
    unfolding tags logged banner by simp
  then have "\<exists>s' w2. tryBlock ?net (str ''1'') ?url ?s ?w = (Inr s', w2)
          \<and> allTags s' = [pairToTag (str ''1'') ?good]
          \<and> console w2 =
            [ConsoleLogList (str ''Rejected token names due to HTML/Markdown content:'')
               [str ''<script>, Symbol: BAD''],
             ConsoleLog (str ''Retrieved first 1000 entries...'')]"
    by simp
  with tags logged fetched show ?thesis by blast
qed

text \<open>
  C7. Each tag that \<open>transformPairsToTags\<close> returns belongs to one valid pair, in order,
  and has \<open>Contract Address\<close> \<open>eip155:\<close>, the chain id, a colon and the id of the pair;
  \<open>Public Name Tag\<close> the truncated symbols text followed by \<open> Pair\<close>; \<open>Project Name\<close>
  \<open>Uniswap v2\<close>; and \<open>UI/Website Link\<close> \<open>https://uniswap.org\<close>.
\<close>

theorem contractTag_fields:
  "list_all2
     (\<lambda>pair tag.
        Contract_Address tag = str ''eip155:'' @ chainId @ str '':'' @ pair_id pair
        \<and> Public_Name_Tag tag
            = truncateString (trim (symbol (token0 pair)) @ str ''/'' @ trim (symbol (token1 pair))) 45
              @ str '' Pair''
        \<and> Project_Name tag = str ''Uniswap v2''
        \<and> UI_Website_Link tag = str ''https://uniswap.org'')
     (filter (\<lambda>pair. \<not> token0Invalid pair \<and> \<not> token1Invalid pair) ps)
     (fst (transformPairsToTags chainId ps))"
  unfolding transformPairsToTags_tags list_all2_map2
  by (rule list_all2_refl) (simp add: pairToTag_def symbolsText_def)

theorem contractTag_fields_witness:
  "map (\<lambda>tag. (Contract_Address tag, Public_Name_Tag tag, Project_Name tag, UI_Website_Link tag))
     (fst (transformPairsToTags (str ''1'')
       [\<lparr>pair_id = str ''0xabc'', createdAtTimestamp = 2,
         token0 = \<lparr>token_id = str ''0x03'', name = str ''Dai Stablecoin'', symbol = str '' DAI''\<rparr>,
         token1 = \<lparr>token_id = str ''0x02'', name = str ''Wrapped Ether'', symbol = str ''WETH''\<rparr>\<rparr>]))
   = [(str ''eip155:1:0xabc'', str ''DAI/WETH Pair'', str ''Uniswap v2'', str ''https://uniswap.org'')]"
proof -
  let ?good = "\<lparr>pair_id = str ''0xabc'', createdAtTimestamp = 2,
         token0 = \<lparr>token_id = str ''0x03'', name = str ''Dai Stablecoin'', symbol = str '' DAI''\<rparr>,
         token1 = \<lparr>token_id = str ''0x02'', name = str ''Wrapped Ether'', symbol = str ''WETH''\<rparr>\<rparr>"
  have valid: "\<not> token0Invalid ?good \<and> \<not> token1Invalid ?good"
    by (simp add: token0Invalid_def token1Invalid_def containsHtmlOrMarkdown_def
          tagClosesHere_def str_def)
  have sym: "truncateString (trim (str '' DAI'') @ str ''/'' @ trim (str ''WETH'')) 45 = str ''DAI/WETH''"
    by (simp add: truncateString_def trim_def isWhiteSpace_def str_def)
  from contractTag_fields [where chainId = "str ''1''" and ps = "[?good]"] valid
  obtain tag where "fst (transformPairsToTags (str ''1'') [?good]) = [tag]"
    and "Contract_Address tag = str ''eip155:'' @ str ''1'' @ str '':'' @ str ''0xabc''"
    and "Public_Name_Tag tag = str ''DAI/WETH'' @ str '' Pair''"
    and "Project_Name tag = str ''Uniswap v2''"
    and "UI_Website_Link tag = str ''https://uniswap.org''"
    by (auto simp: list_all2_Cons1 sym)
  then show ?thesis by (simp add: str_def)
qed

text \<open>
  C8. The \<open>Public Note\<close> of the tag of each valid pair is the sentence that names, for
  \<open>token0\<close> and then \<open>token1\<close>, the display name, in which \<open>replace\<close> has rewritten
  \<open>USD//C\<close> (its first occurrence, as \<open>String.prototype.replace\<close> does for a string
  pattern) to \<open>USDC\<close> and which is then trimmed, followed by the trimmed symbol in
  brackets. A token named \<open>USD//C Coin\<close> is rendered as \<open>USDC Coin\<close>.
\<close>

theorem publicNote_text:
  "list_all2
     (\<lambda>pair tag.
        Public_Note tag =
          str ''The pair contract on Uniswap v2 for the ''
          @ trim (replace (name (token0 pair)) (str ''USD//C'') (str ''USDC''))
          @ str '' ('' @ trim (symbol (token0 pair)) @ str '') / ''
          @ trim (replace (name (token1 pair)) (str ''USD//C'') (str ''USDC''))
          @ str '' ('' @ trim (symbol (token1 pair)) @ str '') pair.'')
     (filter (\<lambda>pair. \<not> token0Invalid pair \<and> \<not> token1Invalid pair) ps)
     (fst (transformPairsToTags chainId ps))
   \<and> trim (replace (str ''USD//C Coin'') (str ''USD//C'') (str ''USDC'')) = str ''USDC Coin''"
proof
  show "trim (replace (str ''USD//C Coin'') (str ''USD//C'') (str ''USDC'')) = str ''USDC Coin''"
    by (simp add: replace_def trim_def isWhiteSpace_def str_def)
  show "list_all2
     (\<lambda>pair tag.
        Public_Note tag =
          str ''The pair contract on Uniswap v2 for the ''
          @ trim (replace (name (token0 pair)) (str ''USD//C'') (str ''USDC''))
          @ str '' ('' @ trim (symbol (token0 pair)) @ str '') / ''
          @ trim (replace (name (token1 pair)) (str ''USD//C'') (str ''USDC''))
          @ str '' ('' @ trim (symbol (token1 pair)) @ str '') pair.'')
     (filter (\<lambda>pair. \<not> token0Invalid pair \<and> \<not> token1Invalid pair) ps)
     (fst (transformPairsToTags chainId ps))"
    unfolding transformPairsToTags_tags list_all2_map2
    by (rule list_all2_refl) (simp add: pairToTag_def)
qed

theorem publicNote_text_witness:
  "map Public_Note
     (fst (transformPairsToTags (str ''1'')
       [\<lparr>pair_id = str ''0xabc'', createdAtTimestamp = 2,
         token0 = \<lparr>token_id = str ''0x03'', name = str ''USD//C Coin'', symbol = str ''USDC ''\<rparr>,
         token1 = \<lparr>token_id = str ''0x02'', name = str '' Wrapped Ether'', symbol = str ''WETH''\<rparr>\<rparr>]))
   = [str ''The pair contract on Uniswap v2 for the USDC Coin (USDC) / Wrapped Ether (WETH) pair.'']"
proof -
  let ?good = "\<lparr>pair_id = str ''0xabc'', createdAtTimestamp = 2,
         token0 = \<lparr>token_id = str ''0x03'', name = str ''USD//C Coin'', symbol = str ''USDC ''\<rparr>,
         token1 = \<lparr>token_id = str ''0x02'', name = str '' Wrapped Ether'', symbol = str ''WETH''\<rparr>\<rparr>"
  have valid: "\<not> token0Invalid ?good \<and> \<not> token1Invalid ?good"
    by (simp add: token0Invalid_def token1Invalid_def containsHtmlOrMarkdown_def
          tagClosesHere_def str_def)
  have n1: "trim (replace (str '' Wrapped Ether'') (str ''USD//C'') (str ''USDC'')) = str ''Wrapped Ether''"
    by (simp add: replace_def trim_def isWhiteSpace_def str_def)
  have s0: "trim (str ''USDC '') = str ''USDC''" and s1: "trim (str ''WETH'') = str ''WETH''"
    by (simp_all add: trim_def isWhiteSpace_def str_def)
  note T = publicNote_text [where chainId = "str ''1''" and ps = "[?good]"]
  from T [THEN conjunct1] valid
  obtain tag where "fst (transformPairsToTags (str ''1'') [?good]) = [tag]"
    and "Public_Note tag =
          str ''The pair contract on Uniswap v2 for the '' @ str ''USDC Coin''
          @ str '' ('' @ str ''USDC'' @ str '') / '' @ str ''Wrapped Ether''
          @ str '' ('' @ str ''WETH'' @ str '') pair.''"
    by (auto simp: list_all2_Cons1 T [THEN conjunct2] n1 s0 s1)
  then show ?thesis by (simp add: str_def)
qed

subsection \<open>\<open>fetchData\<close>\<close>

text \<open>
  C6. For the response that one call of \<open>fetch\<close> resolves to: when its status is not
  successful, \<open>fetchData\<close> throws \<open>HTTP error\<close> with the status; otherwise, for the
  parsed body, when it carries an \<open>errors\<close> list, each message is written to
  \<open>console.error\<close> and \<open>fetchData\<close> throws the GraphQL-errors error; otherwise, when
  \<open>data\<close> or \<open>data.pairs\<close> is absent, it throws \<open>No pairs data found.\<close>; otherwise it
  returns the pairs of the page.
\<close>

theorem fetchData_checks:
  assumes "net (length (requests w)) = Inr response"
  shows
    "(\<not> ok response \<longrightarrow>
        fetchData net url cursor w =
          (Inl (ThrownError (newError (str ''HTTP error: '' @ toString (int (status response))))),
           w\<lparr>requests := requests w @ [(url, cursor)]\<rparr>))
     \<and> (\<forall>result. ok response \<and> json response = Inr result \<longrightarrow>
          (\<forall>errs. errors result = Some errs \<longrightarrow>
             fetchData net url cursor w =
               (Inl (ThrownError (newError (str ''GraphQL errors occurred: see logs for details.''))),
                w\<lparr>requests := requests w @ [(url, cursor)],
                  console := console w
                    @ map (\<lambda>error. ConsoleError (str ''GraphQL error: '' @ error_message error)) errs\<rparr>))
          \<and> (errors result = None
               \<and> (data result = None \<or> (\<exists>d. data result = Some d \<and> pairs d = None)) \<longrightarrow>
             fetchData net url cursor w =
               (Inl (ThrownError (newError (str ''No pairs data found.''))),
                w\<lparr>requests := requests w @ [(url, cursor)]\<rparr>))
          \<and> (\<forall>d ps. errors result = None \<and> data result = Some d \<and> pairs d = Some ps \<longrightarrow>
             fetchData net url cursor w = (Inr ps, w\<lparr>requests := requests w @ [(url, cursor)]\<rparr>)))"
  using assms by (auto simp: fetchData_def)

theorem fetchData_checks_witness:
  "fetchData (\<lambda>n. Inr \<lparr>ok = False, status = 500, json = Inl ThrownOther\<rparr>)
      (str ''u'') (Num 0) \<lparr>console = [], requests = []\<rparr>
     = (Inl (ThrownError (newError (str ''HTTP error: 500''))),
        \<lparr>console = [], requests = [(str ''u'', Num 0)]\<rparr>)
   \<and> fetchData
        (\<lambda>n. Inr \<lparr>ok = True, status = 200,
                   json = Inr \<lparr>data = None,
                               errors = Some [\<lparr>error_message = str ''bad query''\<rparr>,
                                              \<lparr>error_message = str ''timeout''\<rparr>]\<rparr>\<rparr>)
        (str ''u'') (Num 0) \<lparr>console = [], requests = []\<rparr>
     = (Inl (ThrownError (newError (str ''GraphQL errors occurred: see logs for details.''))),
        \<lparr>console = [ConsoleError (str ''GraphQL error: bad query''),
                    ConsoleError (str ''GraphQL error: timeout'')],
         requests = [(str ''u'', Num 0)]\<rparr>)
   \<and> fetchData
        (\<lambda>n. Inr \<lparr>ok = True, status = 200,
                   json = Inr \<lparr>data = Some \<lparr>pairs = None\<rparr>, errors = None\<rparr>\<rparr>)
        (str ''u'') (Num 0) \<lparr>console = [], requests = []\<rparr>
     = (Inl (ThrownError (newError (str ''No pairs data found.''))),
        \<lparr>console = [], requests = [(str ''u'', Num 0)]\<rparr>)
   \<and> fetchData
        (\<lambda>n. Inr \<lparr>ok = True, status = 200,
                   json = Inr \<lparr>data = Some \<lparr>pairs = Some
                     [\<lparr>pair_id = str ''0xabc'', createdAtTimestamp = 2,
                       token0 = \<lparr>token_id = str ''0x03'', name = str ''Dai'', symbol = str ''DAI''\<rparr>,
                       token1 = \<lparr>token_id = str ''0x02'', name = str ''Wrapped Ether'',
                                 symbol = str ''WETH''\<rparr>\<rparr>]\<rparr>,
                     errors = None\<rparr>\<rparr>)
        (str ''u'') (Num 0) \<lparr>console = [], requests = []\<rparr>
     = (Inr [\<lparr>pair_id = str ''0xabc'', createdAtTimestamp = 2,
              token0 = \<lparr>token_id = str ''0x03'', name = str ''Dai'', symbol = str ''DAI''\<rparr>,
              token1 = \<lparr>token_id = str ''0x02'', name = str ''Wrapped Ether'',
                        symbol = str ''WETH''\<rparr>\<rparr>],
        \<lparr>console = [], requests = [(str ''u'', Num 0)]\<rparr>)"
proof -
  let ?w = "\<lparr>console = [], requests = []\<rparr>"
  let ?r500 = "\<lparr>ok = False, status = 500, json = Inl ThrownOther\<rparr>"
  let ?body1 = "\<lparr>data = None, errors = Some [\<lparr>error_message = str ''bad query''\<rparr>,
                                              \<lparr>error_message = str ''timeout''\<rparr>]\<rparr>"
  let ?body2 = "\<lparr>data = Some \<lparr>pairs = None\<rparr>, errors = None\<rparr>"
  let ?ps = "[\<lparr>pair_id = str ''0xabc'', createdAtTimestamp = 2,
                       token0 = \<lparr>token_id = str ''0x03'', name = str ''Dai'', symbol = str ''DAI''\<rparr>,
                       token1 = \<lparr>token_id = str ''0x02'', name = str ''Wrapped Ether'',
                                 symbol = str ''WETH''\<rparr>\<rparr>]"
  let ?body3 = "\<lparr>data = Some \<lparr>pairs = Some ?ps\<rparr>, errors = None\<rparr>"
  have s500: "toString 500 = str ''500''" by (rule toString_500)
  have a: "(\<lambda>n. Inr ?r500 :: thrown + http_response) (length (requests ?w)) = Inr ?r500" by simp
  have b: "(\<lambda>n. Inr \<lparr>ok = True, status = 200, json = Inr ?body1\<rparr> :: thrown + http_response)
             (length (requests ?w)) = Inr \<lparr>ok = True, status = 200, json = Inr ?body1\<rparr>" by simp
  have c: "(\<lambda>n. Inr \<lparr>ok = True, status = 200, json = Inr ?body2\<rparr> :: thrown + http_response)
             (length (requests ?w)) = Inr \<lparr>ok = True, status = 200, json = Inr ?body2\<rparr>" by simp
  have d: "(\<lambda>n. Inr \<lparr>ok = True, status = 200, json = Inr ?body3\<rparr> :: thrown + http_response)
             (length (requests ?w)) = Inr \<lparr>ok = True, status = 200, json = Inr ?body3\<rparr>" by simp
  have 1: "fetchData (\<lambda>n. Inr ?r500) (str ''u'') (Num 0) ?w
     = (Inl (ThrownError (newError (str ''HTTP error: 500''))),
        \<lparr>console = [], requests = [(str ''u'', Num 0)]\<rparr>)"
    using fetchData_checks [OF a, where url = "str ''u''" and cursor = "Num 0" and w = ?w]
    by (simp add: s500 str_def)
  have 2: "fetchData (\<lambda>n. Inr \<lparr>ok = True, status = 200, json = Inr ?body1\<rparr>) (str ''u'') (Num 0) ?w
     = (Inl (ThrownError (newError (str ''GraphQL errors occurred: see logs for details.''))),
        \<lparr>console = [ConsoleError (str ''GraphQL error: bad query''),
                    ConsoleError (str ''GraphQL error: timeout'')],
         requests = [(str ''u'', Num 0)]\<rparr>)"
    using fetchData_checks [OF b, where url = "str ''u''" and cursor = "Num 0" and w = ?w]
    by (simp add: str_def)
  have 3: "fetchData (\<lambda>n. Inr \<lparr>ok = True, status = 200, json = Inr ?body2\<rparr>) (str ''u'') (Num 0) ?w
     = (Inl (ThrownError (newError (str ''No pairs data found.''))),
        \<lparr>console = [], requests = [(str ''u'', Num 0)]\<rparr>)"
    using fetchData_checks [OF c, where url = "str ''u''" and cursor = "Num 0" and w = ?w]
    by simp
  have 4: "fetchData (\<lambda>n. Inr \<lparr>ok = True, status = 200, json = Inr ?body3\<rparr>) (str ''u'') (Num 0) ?w
     = (Inr ?ps, \<lparr>console = [], requests = [(str ''u'', Num 0)]\<rparr>)"
    using fetchData_checks [OF d, where url = "str ''u''" and cursor = "Num 0" and w = ?w]
    by simp
  from 1 2 3 4 show ?thesis by (intro conjI)
qed

text \<open>
  C10. For a successful response whose parsed body has an \<open>errors\<close> field: when the list
  is empty, \<open>fetchData\<close> still throws the GraphQL-errors error and writes nothing to the
  console; whatever the list and whatever \<open>data\<close> holds, the outcome is that error. Only
  when \<open>errors\<close> is absent does the outcome depend on \<open>data\<close> and \<open>data.pairs\<close>.
\<close>

theorem fetchData_empty_errors:
  assumes "net (length (requests w)) = Inr response"
    and "ok response"
    and "json response = Inr result"
  shows
    "(errors result = Some [] \<longrightarrow>
        fetchData net url cursor w =
          (Inl (ThrownError (newError (str ''GraphQL errors occurred: see logs for details.''))),
           w\<lparr>requests := requests w @ [(url, cursor)]\<rparr>))
     \<and> (\<forall>errs. errors result = Some errs \<longrightarrow>
          fst (fetchData net url cursor w) =
            Inl (ThrownError (newError (str ''GraphQL errors occurred: see logs for details.''))))
     \<and> (errors result = None \<longrightarrow>
          fst (fetchData net url cursor w) =
            (case data result of
               None \<Rightarrow> Inl (ThrownError (newError (str ''No pairs data found.'')))
             | Some d \<Rightarrow>
                 (case pairs d of
                    None \<Rightarrow> Inl (ThrownError (newError (str ''No pairs data found.'')))
                  | Some ps \<Rightarrow> Inr ps)))"
  using assms by (auto simp: fetchData_def split: option.splits)

theorem fetchData_empty_errors_witness:
  "fetchData
     (\<lambda>n. Inr \<lparr>ok = True, status = 200,
                json = Inr \<lparr>data = Some \<lparr>pairs = Some []\<rparr>, errors = Some []\<rparr>\<rparr>)
     (str ''u'') (Num 0) \<lparr>console = [], requests = []\<rparr>
   = (Inl (ThrownError (newError (str ''GraphQL errors occurred: see logs for details.''))),
      \<lparr>console = [], requests = [(str ''u'', Num 0)]\<rparr>)
   \<and> fst (fetchData
     (\<lambda>n. Inr \<lparr>ok = True, status = 200,
                json = Inr \<lparr>data = Some \<lparr>pairs = Some []\<rparr>, errors = None\<rparr>\<rparr>)
     (str ''u'') (Num 0) \<lparr>console = [], requests = []\<rparr>) = Inr []"
proof -
  let ?w = "\<lparr>console = [], requests = []\<rparr>"
  let ?b1 = "\<lparr>data = Some \<lparr>pairs = Some ([] :: Pair list)\<rparr>, errors = Some []\<rparr>"
  let ?b2 = "\<lparr>data = Some \<lparr>pairs = Some ([] :: Pair list)\<rparr>, errors = None\<rparr>"
  let ?r1 = "\<lparr>ok = True, status = 200, json = Inr ?b1\<rparr>"
  let ?r2 = "\<lparr>ok = True, status = 200, json = Inr ?b2\<rparr>"
  have a: "(\<lambda>n. Inr ?r1 :: thrown + http_response) (length (requests ?w)) = Inr ?r1" by simp
  have b: "(\<lambda>n. Inr ?r2 :: thrown + http_response) (length (requests ?w)) = Inr ?r2" by simp
  have ok1: "ok ?r1" and j1: "json ?r1 = Inr ?b1" and ok2: "ok ?r2" and j2: "json ?r2 = Inr ?b2"
    by simp_all
  have 1: "fetchData (\<lambda>n. Inr ?r1) (str ''u'') (Num 0) ?w
   = (Inl (ThrownError (newError (str ''GraphQL errors occurred: see logs for details.''))),
      \<lparr>console = [], requests = [(str ''u'', Num 0)]\<rparr>)"
    using fetchData_empty_errors [OF a ok1 j1, where url = "str ''u''" and cursor = "Num 0" and w = ?w]
    by simp
  have 2: "fst (fetchData (\<lambda>n. Inr ?r2) (str ''u'') (Num 0) ?w) = Inr []"
    using fetchData_empty_errors [OF b ok2 j2, where url = "str ''u''" and cursor = "Num 0" and w = ?w]
    by simp
  from 1 2 show ?thesis by (intro conjI)
qed

subsection \<open>\<open>returnTags\<close>\<close>

lemma fetchData_page:
  assumes "net (length (requests w)) = Inr response"
    and "ok response"
    and "json response = Inr \<lparr>data = Some \<lparr>pairs = Some ps\<rparr>, errors = None\<rparr>"
  shows "fetchData net url cursor w = (Inr ps, w\<lparr>requests := requests w @ [(url, cursor)]\<rparr>)"
  using assms by (simp add: fetchData_def)

lemma tryBlock_page:
  assumes "net (length (requests w)) = Inr response"
    and "ok response"
    and "json response = Inr \<lparr>data = Some \<lparr>pairs = Some ps\<rparr>, errors = None\<rparr>"
  shows "tryBlock net chainId url s w =
    (Inr \<lparr>lastTimestamp =
            (if length ps = 1000 then parseInt10 (toString (createdAtTimestamp (last ps)))
             else lastTimestamp s),
          allTags = allTags s @ fst (transformPairsToTags chainId ps),
          isMore = (length ps = 1000),
          counter = counter s + 1\<rparr>,
     \<lparr>console = console w @ snd (transformPairsToTags chainId ps)
        @ [ConsoleLog (str ''Retrieved first '' @ toString (int ((counter s + 1) * 1000))
                       @ str '' entries...'')],
      requests = requests w @ [(url, lastTimestamp s)]\<rparr>)"
  by (simp add: tryBlock_def fetchData_page [where net = net and w = w, OF assms]
        Let_def split: prod.splits)

lemma tryBlock_throws:
  "tryBlock net chainId url s w = (Inl cause, w1) \<Longrightarrow>
     fetchData net url (lastTimestamp s) w = (Inl cause, w1)"
  by (auto simp: tryBlock_def Let_def split: prod.splits sum.splits)

lemma returnTags_loop_step:
  "isMore s \<Longrightarrow> tryBlock net chainId url s w = (Inr s', w') \<Longrightarrow>
     returnTags_loop net chainId url s w = returnTags_loop net chainId url s' w'"
  by (subst returnTags_loop.simps) simp

lemma returnTags_loop_done:
  "\<not> isMore s \<Longrightarrow> returnTags_loop net chainId url s w = Some (Inr (allTags s), w)"
  by (subst returnTags_loop.simps) simp

lemma returnTags_loop_rejects_aux:
  assumes "returnTags_loop net chainId url s w = Some res"
  shows "\<forall>e wEnd. res = (Inl e, wEnd) \<longrightarrow>
       (\<exists>s' w' cause w1. tryBlock net chainId url s' w' = (Inl cause, w1)
           \<and> catchBlock cause w1 = (e, wEnd))"
proof (rule returnTags_loop.raw_induct
    [where P = "\<lambda>net chainId url s w res. \<forall>e wEnd. res = (Inl e, wEnd) \<longrightarrow>
       (\<exists>s' w' cause w1. tryBlock net chainId url s' w' = (Inl cause, w1)
           \<and> catchBlock cause w1 = (e, wEnd))", OF _ assms])
  fix loop :: "network \<Rightarrow> jsstring \<Rightarrow> jsstring \<Rightarrow> loop_state \<Rightarrow> world
     \<Rightarrow> ((js_error + ContractTag list) \<times> world) option"
  fix net chainId url s w res
  assume IH: "\<And>net chainId url s w res. loop net chainId url s w = Some res \<Longrightarrow>
     \<forall>e wEnd. res = (Inl e, wEnd) \<longrightarrow>
       (\<exists>s' w' cause w1. tryBlock net chainId url s' w' = (Inl cause, w1)
           \<and> catchBlock cause w1 = (e, wEnd))"
  assume body: "(if isMore s then
        (case tryBlock net chainId url s w of
           (Inl error, w') \<Rightarrow>
             (case catchBlock error w' of (wrapped, w'') \<Rightarrow> Some (Inl wrapped, w''))
         | (Inr s', w') \<Rightarrow> loop net chainId url s' w')
      else Some (Inr (allTags s), w)) = Some res"
  show "\<forall>e wEnd. res = (Inl e, wEnd) \<longrightarrow>
       (\<exists>s' w' cause w1. tryBlock net chainId url s' w' = (Inl cause, w1)
           \<and> catchBlock cause w1 = (e, wEnd))"
  proof (cases "isMore s")
    case False
    with body show ?thesis by auto
  next
    case more: True
    obtain r w1 where t: "tryBlock net chainId url s w = (r, w1)"
      by (cases "tryBlock net chainId url s w")
    show ?thesis
    proof (cases r)
      case (Inl cause)
      with body more t have "res = (Inl (fst (catchBlock cause w1)), snd (catchBlock cause w1))"
        by (auto split: prod.splits)
      with t Inl show ?thesis by (metis Pair_inject prod.collapse sum.inject(1))
    next
      case (Inr s')
      with body more t have "loop net chainId url s' w1 = Some res" by simp
      then show ?thesis by (rule IH)
    qed
  qed
qed

lemma returnTags_loop_rejects:
  assumes "returnTags_loop net chainId url s w = Some (Inl e, wEnd)"
  shows "\<exists>s' w' cause w1. tryBlock net chainId url s' w' = (Inl cause, w1)
            \<and> catchBlock cause w1 = (e, wEnd)"
  using returnTags_loop_rejects_aux [OF assms] by blast

text \<open>
  C9. When \<open>prepareUrl\<close> has resolved the URL and the first fetch returns an empty list of
  pairs, the loop ends after that one fetch and \<open>returnTags\<close> resolves with the empty
  list: the run returns, with one request sent and no error.
\<close>

theorem returnTags_empty_first_page:
  assumes "prepareUrl chainId apiKey = Inr url"
    and "net 0 = Inr response"
    and "ok response"
    and "json response = Inr \<lparr>data = Some \<lparr>pairs = Some []\<rparr>, errors = None\<rparr>"
  shows "returnTags net chainId apiKey =
           Some (Inr [],
                 \<lparr>console = [ConsoleLog (str ''Retrieved first 1000 entries...'')],
                  requests = [(url, Num 0)]\<rparr>)"
proof -
  let ?s0 = "\<lparr>lastTimestamp = Num 0, allTags = [], isMore = True, counter = 0\<rparr>"
  let ?w0 = "\<lparr>console = [], requests = []\<rparr>"
  have n: "net (length (requests ?w0)) = Inr response" using assms(2) by simp
  have empty: "transformPairsToTags chainId [] = ([], [])"
    by (simp add: transformPairsToTags_def)
  have k: "toString 1000 = str ''1000''" by (rule toString_1000)
  have t: "tryBlock net chainId url ?s0 ?w0 =
      (Inr \<lparr>lastTimestamp = Num 0, allTags = [], isMore = False, counter = 1\<rparr>,
       \<lparr>console = [ConsoleLog (str ''Retrieved first 1000 entries...'')],
        requests = [(url, Num 0)]\<rparr>)"
    by (simp add: tryBlock_page [where net = net and w = ?w0, OF n assms(3) assms(4)] empty k str_def)
  have "returnTags net chainId apiKey = returnTags_loop net chainId url ?s0 ?w0"
    by (simp add: returnTags_def assms(1))
  also have "\<dots> = returnTags_loop net chainId url
      \<lparr>lastTimestamp = Num 0, allTags = [], isMore = False, counter = 1\<rparr>
      \<lparr>console = [ConsoleLog (str ''Retrieved first 1000 entries...'')],
        requests = [(url, Num 0)]\<rparr>"
    by (rule returnTags_loop_step [OF _ t]) simp
  also have "\<dots> = Some (Inr [],
                 \<lparr>console = [ConsoleLog (str ''Retrieved first 1000 entries...'')],
                  requests = [(url, Num 0)]\<rparr>)"
    by (simp add: returnTags_loop_done)
  finally show ?thesis .
qed

theorem returnTags_empty_first_page_witness:
  "prepareUrl (str ''1'') (str ''key'') =
     Inr (str ''https://gateway-arbitrum.network.thegraph.com/api/key/deployments/id/QmZzsQGDmQFbzYkv2qx4pVnD6aVnuhKbD3t1ea7SAvV7zE'')
   \<and> returnTags
       (\<lambda>n. Inr \<lparr>ok = True, status = 200,
                  json = Inr \<lparr>data = Some \<lparr>pairs = Some []\<rparr>, errors = None\<rparr>\<rparr>)
       (str ''1'') (str ''key'')
     = Some (Inr [],
             \<lparr>console = [ConsoleLog (str ''Retrieved first 1000 entries...'')],
              requests = [(str ''https://gateway-arbitrum.network.thegraph.com/api/key/deployments/id/QmZzsQGDmQFbzYkv2qx4pVnD6aVnuhKbD3t1ea7SAvV7zE'', Num 0)]\<rparr>)"
proof -
  let ?r = "\<lparr>ok = True, status = 200,
             json = Inr \<lparr>data = Some \<lparr>pairs = Some ([] :: Pair list)\<rparr>, errors = None\<rparr>\<rparr>"
  have enc: "encodeURIComponent (str ''key'') = Inr (str ''key'')" by code_simp
  have url: "prepareUrl (str ''1'') (str ''key'') =
     Inr (str ''https://gateway-arbitrum.network.thegraph.com/api/key/deployments/id/QmZzsQGDmQFbzYkv2qx4pVnD6aVnuhKbD3t1ea7SAvV7zE'')"
    unfolding prepareUrl_supported enc by (simp add: str_def)
  have n: "(\<lambda>n::nat. Inr ?r :: thrown + http_response) 0 = Inr ?r" by simp
  have o: "ok ?r" by simp
  have j: "json ?r = Inr \<lparr>data = Some \<lparr>pairs = Some []\<rparr>, errors = None\<rparr>" by simp
  from returnTags_empty_first_page
         [where net = "\<lambda>n. Inr ?r" and response = ?r, OF url n o j] url
  show ?thesis by (intro conjI)
qed

lemma tryBlock_rethrows:
  "fetchData net url (lastTimestamp s) w = (Inl cause, w1) \<Longrightarrow>
     tryBlock net chainId url s w = (Inl cause, w1)"
  by (simp add: tryBlock_def)

lemma returnTags_loop_catch:
  "isMore s \<Longrightarrow> tryBlock net chainId url s w = (Inl cause, w1) \<Longrightarrow>
     catchBlock cause w1 = (e, w2) \<Longrightarrow>
     returnTags_loop net chainId url s w = Some (Inl e, w2)"
  by (subst returnTags_loop.simps) simp

lemma returnTags_loop_full_page:
  assumes "isMore s"
    and "net (length (requests w)) = Inr response"
    and "ok response"
    and "json response = Inr \<lparr>data = Some \<lparr>pairs = Some ps\<rparr>, errors = None\<rparr>"
    and "length ps = 1000"
  shows "returnTags_loop net chainId url s w =
    returnTags_loop net chainId url
      \<lparr>lastTimestamp = parseInt10 (toString (createdAtTimestamp (last ps))),
       allTags = allTags s @ fst (transformPairsToTags chainId ps),
       isMore = True,
       counter = counter s + 1\<rparr>
      \<lparr>console = console w @ snd (transformPairsToTags chainId ps)
         @ [ConsoleLog (str ''Retrieved first '' @ toString (int ((counter s + 1) * 1000))
                        @ str '' entries...'')],
       requests = requests w @ [(url, lastTimestamp s)]\<rparr>"
  by (rule returnTags_loop_step [OF assms(1)])
     (simp add: tryBlock_page [where net = net and w = w, OF assms(2-4)] assms(5))







lemma requests_fetchData:
  "requests (snd (fetchData net url cursor w)) = requests w @ [(url, cursor)]"
  by (simp add: fetchData_def Let_def split: sum.splits option.splits)

lemma catchBlock_eq:
  "catchBlock cause w1 =
     (case cause of
        ThrownError err \<Rightarrow> newError (str ''Failed fetching data: '' @ errorToString err)
      | ThrownOther \<Rightarrow> newError (str ''An unknown error occurred during fetch operation.''),
      w1\<lparr>console := console w1
           @ [ConsoleError
                (case cause of
                   ThrownError err \<Rightarrow> str ''An error occurred: '' @ message err
                 | ThrownOther \<Rightarrow> str ''An unknown error occurred.'')]\<rparr>)"
  by (cases cause) (simp_all add: catchBlock_def isError_def)

text \<open>
  The loop from any state: after \<open>n\<close> more full pages, a fetch that throws ends the run
  with the rejection that the \<open>catch\<close> block builds, whatever \<open>allTags\<close> holds by then.
\<close>

lemma returnTags_loop_rejects_after:
  assumes "isMore s"
    and "\<forall>i<n. \<exists>response ps. net (length (requests w) + i) = Inr response \<and> ok response
            \<and> json response = Inr \<lparr>data = Some \<lparr>pairs = Some ps\<rparr>, errors = None\<rparr>
            \<and> length ps = 1000"
    and "\<forall>cursor w'. length (requests w') = length (requests w) + n \<longrightarrow>
            fst (fetchData net url cursor w') = Inl cause"
  shows "\<exists>wEnd. returnTags_loop net chainId url s w =
            Some (Inl (case cause of
                         ThrownError err \<Rightarrow>
                           newError (str ''Failed fetching data: '' @ errorToString err)
                       | ThrownOther \<Rightarrow>
                           newError (str ''An unknown error occurred during fetch operation.'')),
                  wEnd)
          \<and> last (console wEnd) =
              ConsoleError
                (case cause of
                   ThrownError err \<Rightarrow> str ''An error occurred: '' @ message err
                 | ThrownOther \<Rightarrow> str ''An unknown error occurred.'')
          \<and> length (requests wEnd) = length (requests w) + n + 1"
  using assms
proof (induction n arbitrary: s w)
  case 0
  from "0.prems"(3) have "fst (fetchData net url (lastTimestamp s) w) = Inl cause" by simp
  then obtain w1 where f: "fetchData net url (lastTimestamp s) w = (Inl cause, w1)"
    by (cases "fetchData net url (lastTimestamp s) w") simp
  from requests_fetchData [of net url "lastTimestamp s" w] f
  have r: "length (requests w1) = length (requests w) + 1" by simp
  from returnTags_loop_catch [OF "0.prems"(1) tryBlock_rethrows [OF f] catchBlock_eq]
  show ?case using r by simp
next
  case (Suc n)
  from Suc.prems(2) obtain response ps where
    page: "net (length (requests w)) = Inr response" "ok response"
      "json response = Inr \<lparr>data = Some \<lparr>pairs = Some ps\<rparr>, errors = None\<rparr>"
      "length ps = 1000"
    by force
  let ?s' = "\<lparr>lastTimestamp = parseInt10 (toString (createdAtTimestamp (last ps))),
       allTags = allTags s @ fst (transformPairsToTags chainId ps),
       isMore = True,
       counter = counter s + 1\<rparr>"
  let ?w' = "\<lparr>console = console w @ snd (transformPairsToTags chainId ps)
         @ [ConsoleLog (str ''Retrieved first '' @ toString (int ((counter s + 1) * 1000))
                        @ str '' entries...'')],
       requests = requests w @ [(url, lastTimestamp s)]\<rparr>"
  have step: "returnTags_loop net chainId url s w = returnTags_loop net chainId url ?s' ?w'"
    using Suc.prems(1) page by (rule returnTags_loop_full_page)
  have more: "isMore ?s'" by simp
  have pages: "\<forall>i<n. \<exists>response ps. net (length (requests ?w') + i) = Inr response \<and> ok response
            \<and> json response = Inr \<lparr>data = Some \<lparr>pairs = Some ps\<rparr>, errors = None\<rparr>
            \<and> length ps = 1000"
  proof (intro allI impI)
    fix i
    assume "i < n"
    then have "Suc i < Suc n" by simp
    with Suc.prems(2) have "\<exists>response ps. net (length (requests w) + Suc i) = Inr response
            \<and> ok response
            \<and> json response = Inr \<lparr>data = Some \<lparr>pairs = Some ps\<rparr>, errors = None\<rparr>
            \<and> length ps = 1000"
      by blast
    then show "\<exists>response ps. net (length (requests ?w') + i) = Inr response \<and> ok response
            \<and> json response = Inr \<lparr>data = Some \<lparr>pairs = Some ps\<rparr>, errors = None\<rparr>
            \<and> length ps = 1000"
      by simp
  qed
  have throws: "\<forall>cursor w''. length (requests w'') = length (requests ?w') + n \<longrightarrow>
            fst (fetchData net url cursor w'') = Inl cause"
    using Suc.prems(3) by simp
  from Suc.IH [OF more pages throws] show ?case unfolding step by simp
qed

text \<open>
  C2 (as amended). An error that \<open>prepareUrl\<close> throws, before the loop and outside its
  \<open>try\<close>, reaches the caller as it is, with nothing logged and no request sent. When the
  URL is resolved and, after any number of full pages, \<open>fetchData\<close> throws,
  \<open>returnTags\<close> rejects. If the thrown value is an \<open>Error\<close> object, the \<open>catch\<close>
  block writes \<open>An error occurred: \<close> with its message to \<open>console.error\<close> and throws
  a new error, \<open>Failed fetching data: \<close> followed by the text of the \<open>Error\<close> object
  (its name, a colon, its message); if it is a value that \<open>isError\<close> does not recognise,
  the log and the new error carry the two fixed texts instead. The outcome is that
  rejection alone: the tags of the pages fetched before are not returned. Conversely,
  every rejection of \<open>returnTags\<close> is one of these two.
\<close>

theorem returnTags_rejection:
  "(\<forall>e. prepareUrl chainId apiKey = Inl e \<longrightarrow>
       returnTags net chainId apiKey = Some (Inl e, \<lparr>console = [], requests = []\<rparr>))
   \<and> (\<forall>url n cause.
         prepareUrl chainId apiKey = Inr url
         \<and> (\<forall>i<n. \<exists>response ps. net i = Inr response \<and> ok response
                \<and> json response = Inr \<lparr>data = Some \<lparr>pairs = Some ps\<rparr>, errors = None\<rparr>
                \<and> length ps = 1000)
         \<and> (\<forall>cursor w. length (requests w) = n \<longrightarrow>
                fst (fetchData net url cursor w) = Inl cause)
         \<longrightarrow>
         (\<exists>w. returnTags net chainId apiKey =
                 Some (Inl (case cause of
                              ThrownError err \<Rightarrow>
                                newError (str ''Failed fetching data: '' @ errorToString err)
                            | ThrownOther \<Rightarrow>
                                newError
                                  (str ''An unknown error occurred during fetch operation.'')),
                       w)
              \<and> last (console w) =
                  ConsoleError
                    (case cause of
                       ThrownError err \<Rightarrow> str ''An error occurred: '' @ message err
                     | ThrownOther \<Rightarrow> str ''An unknown error occurred.'')
              \<and> length (requests w) = n + 1))
   \<and> (\<forall>e w. returnTags net chainId apiKey = Some (Inl e, w) \<longrightarrow>
         (prepareUrl chainId apiKey = Inl e \<and> w = \<lparr>console = [], requests = []\<rparr>)
         \<or> (\<exists>url cursor w0 cause w1.
               prepareUrl chainId apiKey = Inr url
               \<and> fetchData net url cursor w0 = (Inl cause, w1)
               \<and> requests w = requests w1
               \<and> (case cause of
                     ThrownError err \<Rightarrow>
                       e = newError (str ''Failed fetching data: '' @ errorToString err)
                       \<and> console w = console w1
                            @ [ConsoleError (str ''An error occurred: '' @ message err)]
                   | ThrownOther \<Rightarrow>
                       e = newError (str ''An unknown error occurred during fetch operation.'')
                       \<and> console w = console w1
                            @ [ConsoleError (str ''An unknown error occurred.'')])))"
proof (intro conjI allI impI)
  fix e
  assume "prepareUrl chainId apiKey = Inl e"
  then show "returnTags net chainId apiKey = Some (Inl e, \<lparr>console = [], requests = []\<rparr>)"
    by (simp add: returnTags_def)
next
  fix url n cause
  assume a: "prepareUrl chainId apiKey = Inr url
         \<and> (\<forall>i<n. \<exists>response ps. net i = Inr response \<and> ok response
                \<and> json response = Inr \<lparr>data = Some \<lparr>pairs = Some ps\<rparr>, errors = None\<rparr>
                \<and> length ps = 1000)
         \<and> (\<forall>cursor w. length (requests w) = n \<longrightarrow>
                fst (fetchData net url cursor w) = Inl cause)"
  let ?s0 = "\<lparr>lastTimestamp = Num 0, allTags = [], isMore = True, counter = 0\<rparr>"
  let ?w0 = "\<lparr>console = [], requests = []\<rparr>"
  have run: "returnTags net chainId apiKey = returnTags_loop net chainId url ?s0 ?w0"
    using a by (simp add: returnTags_def)
  have more: "isMore ?s0" by simp
  have pages: "\<forall>i<n. \<exists>response ps. net (length (requests ?w0) + i) = Inr response \<and> ok response
            \<and> json response = Inr \<lparr>data = Some \<lparr>pairs = Some ps\<rparr>, errors = None\<rparr>
            \<and> length ps = 1000"
    using a by simp
  have throws: "\<forall>cursor w'. length (requests w') = length (requests ?w0) + n \<longrightarrow>
            fst (fetchData net url cursor w') = Inl cause"
    using a by simp
  from returnTags_loop_rejects_after [OF more pages throws, where chainId = chainId]
  show "\<exists>w. returnTags net chainId apiKey =
                 Some (Inl (case cause of
                              ThrownError err \<Rightarrow>
                                newError (str ''Failed fetching data: '' @ errorToString err)
                            | ThrownOther \<Rightarrow>
                                newError
                                  (str ''An unknown error occurred during fetch operation.'')),
                       w)
              \<and> last (console w) =
                  ConsoleError
                    (case cause of
                       ThrownError err \<Rightarrow> str ''An error occurred: '' @ message err
                     | ThrownOther \<Rightarrow> str ''An unknown error occurred.'')
              \<and> length (requests w) = n + 1"
    unfolding run by simp
next
  fix e w
  assume rejected: "returnTags net chainId apiKey = Some (Inl e, w)"
  show "(prepareUrl chainId apiKey = Inl e \<and> w = \<lparr>console = [], requests = []\<rparr>)
         \<or> (\<exists>url cursor w0 cause w1.
               prepareUrl chainId apiKey = Inr url
               \<and> fetchData net url cursor w0 = (Inl cause, w1)
               \<and> requests w = requests w1
               \<and> (case cause of
                     ThrownError err \<Rightarrow>
                       e = newError (str ''Failed fetching data: '' @ errorToString err)
                       \<and> console w = console w1
                            @ [ConsoleError (str ''An error occurred: '' @ message err)]
                   | ThrownOther \<Rightarrow>
                       e = newError (str ''An unknown error occurred during fetch operation.'')
                       \<and> console w = console w1
                            @ [ConsoleError (str ''An unknown error occurred.'')]))"
  proof (cases "prepareUrl chainId apiKey")
    case (Inl e')
    with rejected show ?thesis by (simp add: returnTags_def)
  next
    case (Inr url)
    with rejected have "returnTags_loop net chainId url
        \<lparr>lastTimestamp = Num 0, allTags = [], isMore = True, counter = 0\<rparr>
        \<lparr>console = [], requests = []\<rparr> = Some (Inl e, w)"
      by (simp add: returnTags_def)
    then obtain s' w0 cause w1 where
      t: "tryBlock net chainId url s' w0 = (Inl cause, w1)" and c: "catchBlock cause w1 = (e, w)"
      using returnTags_loop_rejects by blast
    from t have f: "fetchData net url (lastTimestamp s') w0 = (Inl cause, w1)"
      by (rule tryBlock_throws)
    from c have "requests w = requests w1
             \<and> (case cause of
                   ThrownError err \<Rightarrow>
                     e = newError (str ''Failed fetching data: '' @ errorToString err)
                     \<and> console w = console w1
                          @ [ConsoleError (str ''An error occurred: '' @ message err)]
                 | ThrownOther \<Rightarrow>
                     e = newError (str ''An unknown error occurred during fetch operation.'')
                     \<and> console w = console w1
                          @ [ConsoleError (str ''An unknown error occurred.'')])"
      by (cases cause) (auto simp: catchBlock_def isError_def)
    with Inr f show ?thesis by blast
  qed
qed

theorem returnTags_rejection_witness:
  "returnTags
     (\<lambda>n. if n = 0 then
             Inr \<lparr>ok = True, status = 200,
                  json = Inr \<lparr>data = Some \<lparr>pairs = Some
                    (map (\<lambda>i. \<lparr>pair_id = toString (int i), createdAtTimestamp = int i,
                               token0 = \<lparr>token_id = str ''0x03'', name = str ''Dai Stablecoin'',
                                         symbol = str ''DAI''\<rparr>,
                               token1 = \<lparr>token_id = str ''0x02'', name = str ''Wrapped Ether'',
                                         symbol = str ''WETH''\<rparr>\<rparr>) [1..<1001])\<rparr>,
                    errors = None\<rparr>\<rparr>
           else Inr \<lparr>ok = False, status = 500, json = Inl ThrownOther\<rparr>)
     (str ''5'') (str ''key'')
   = Some (Inl (newError (str ''Unsupported or invalid Chain ID provided: 5. Only the following values are accepted: 1'')),
           \<lparr>console = [], requests = []\<rparr>)
   \<and> (\<exists>w.
        returnTags
          (\<lambda>n. if n = 0 then
             Inr \<lparr>ok = True, status = 200,
                  json = Inr \<lparr>data = Some \<lparr>pairs = Some
                    (map (\<lambda>i. \<lparr>pair_id = toString (int i), createdAtTimestamp = int i,
                               token0 = \<lparr>token_id = str ''0x03'', name = str ''Dai Stablecoin'',
                                         symbol = str ''DAI''\<rparr>,
                               token1 = \<lparr>token_id = str ''0x02'', name = str ''Wrapped Ether'',
                                         symbol = str ''WETH''\<rparr>\<rparr>) [1..<1001])\<rparr>,
                    errors = None\<rparr>\<rparr>
           else Inr \<lparr>ok = False, status = 500, json = Inl ThrownOther\<rparr>)
          (str ''1'') (str ''key'')
        = Some (Inl (newError (str ''Failed fetching data: Error: HTTP error: 500'')), w)
        \<and> last (console w) = ConsoleError (str ''An error occurred: HTTP error: 500'')
        \<and> length (requests w) = 2)"
proof -
  let ?mk = "\<lambda>i. \<lparr>pair_id = toString (int i), createdAtTimestamp = int i,
                               token0 = \<lparr>token_id = str ''0x03'', name = str ''Dai Stablecoin'',
                                         symbol = str ''DAI''\<rparr>,
                               token1 = \<lparr>token_id = str ''0x02'', name = str ''Wrapped Ether'',
                                         symbol = str ''WETH''\<rparr>\<rparr>"
  let ?p1 = "map ?mk [1..<1001]"
  let ?r1 = "\<lparr>ok = True, status = 200,
              json = Inr \<lparr>data = Some \<lparr>pairs = Some ?p1\<rparr>, errors = None\<rparr>\<rparr>"
  let ?r500 = "\<lparr>ok = False, status = 500, json = Inl ThrownOther\<rparr>"
  let ?net = "\<lambda>n::nat. if n = 0 then Inr ?r1 else Inr ?r500 :: thrown + http_response"
  let ?url = "str ''https://gateway-arbitrum.network.thegraph.com/api/key/deployments/id/QmZzsQGDmQFbzYkv2qx4pVnD6aVnuhKbD3t1ea7SAvV7zE''"
  let ?cause = "ThrownError (newError (str ''HTTP error: 500''))"
  note T = returnTags_rejection [where net = ?net and apiKey = "str ''key''"]
  have "str ''5'' \<noteq> str ''1''" by (simp add: str_def)
  then have "prepareUrl (str ''5'') (str ''key'') =
    Inl (newError (str ''Unsupported or invalid Chain ID provided: '' @ str ''5''
                   @ str ''. Only the following values are accepted: '' @ str ''1''))"
    by (rule prepareUrl_unsupported)
  also have "str ''Unsupported or invalid Chain ID provided: '' @ str ''5''
                   @ str ''. Only the following values are accepted: '' @ str ''1''
      = str ''Unsupported or invalid Chain ID provided: 5. Only the following values are accepted: 1''"
    by (simp add: str_def)
  finally have bad: "prepareUrl (str ''5'') (str ''key'') =
    Inl (newError (str ''Unsupported or invalid Chain ID provided: 5. Only the following values are accepted: 1''))" .
  note first = T [where chainId = "str ''5''", THEN conjunct1, rule_format, OF bad]
  have enc: "encodeURIComponent (str ''key'') = Inr (str ''key'')" by code_simp
  have url: "prepareUrl (str ''1'') (str ''key'') = Inr ?url"
    unfolding prepareUrl_supported enc by (simp add: str_def)
  have pages: "\<forall>i<1. \<exists>response ps. ?net i = Inr response \<and> ok response
                \<and> json response = Inr \<lparr>data = Some \<lparr>pairs = Some ps\<rparr>, errors = None\<rparr>
                \<and> length ps = 1000"
    by (simp del: upt_rec_numeral)
  have "\<forall>cursor w. length (requests w) = 1 \<longrightarrow>
          fst (fetchData ?net ?url cursor w)
            = Inl (ThrownError (newError (str ''HTTP error: '' @ toString (int 500))))"
    by (simp add: fetchData_def del: upt_rec_numeral)
  moreover have "str ''HTTP error: '' @ toString (int 500) = str ''HTTP error: 500''"
    by (simp add: toString_500 str_def)
  ultimately have throws: "\<forall>cursor w. length (requests w) = 1 \<longrightarrow>
          fst (fetchData ?net ?url cursor w) = Inl ?cause"
    by simp
  from T [where chainId = "str ''1''", THEN conjunct2, THEN conjunct1, rule_format,
          OF conjI [OF url conjI [OF pages throws]]]
  obtain w where "returnTags ?net (str ''1'') (str ''key'')
        = Some (Inl (newError (str ''Failed fetching data: '' @ errorToString (newError (str ''HTTP error: 500'')))), w)"
    and "last (console w) = ConsoleError (str ''An error occurred: '' @ message (newError (str ''HTTP error: 500'')))"
    and "length (requests w) = 2"
    by auto
  moreover have "str ''Failed fetching data: '' @ errorToString (newError (str ''HTTP error: 500''))
      = str ''Failed fetching data: Error: HTTP error: 500''"
    by (simp add: errorToString_def newError_def str_def)
  moreover have "str ''An error occurred: '' @ message (newError (str ''HTTP error: 500''))
      = str ''An error occurred: HTTP error: 500''"
    by (simp add: newError_def str_def)
  ultimately have "\<exists>w. returnTags ?net (str ''1'') (str ''key'')
        = Some (Inl (newError (str ''Failed fetching data: Error: HTTP error: 500'')), w)
        \<and> last (console w) = ConsoleError (str ''An error occurred: HTTP error: 500'')
        \<and> length (requests w) = 2"
    by auto
  with first show ?thesis by (intro conjI)
qed

theorem returnTags_unsupported_network_counterexample:
  "returnTags (\<lambda>n. Inr \<lparr>ok = False, status = 500, json = Inl ThrownOther\<rparr>)
     (str ''5'') (str ''key'')
   = Some (Inl (newError (str ''Unsupported or invalid Chain ID provided: 5. Only the following values are accepted: 1'')),
           \<lparr>console = [], requests = []\<rparr>)"
proof -
  have "str ''5'' \<noteq> str ''1''" by (simp add: str_def)
  then have "prepareUrl (str ''5'') (str ''key'') =
    Inl (newError (str ''Unsupported or invalid Chain ID provided: '' @ str ''5''
                   @ str ''. Only the following values are accepted: '' @ str ''1''))"
    by (rule prepareUrl_unsupported)
  then show ?thesis by (simp add: returnTags_def str_def)
qed

end
